theory Spec2Isabelle
  imports Complex_Main
begin

section \<open>The numeric array capability\<close>

text \<open>
  The optimizers of \<^verbatim>\<open>openqml/_optimize.py\<close> compute on numpy arrays of floats.
  An element is modelled as an exact real number, or as \<open>NonFinite\<close> where numpy
  yields \<^verbatim>\<open>nan\<close> or \<^verbatim>\<open>inf\<close> (with a warning, not an exception): the square
  root of a negative number and every division by zero. \<open>NonFinite\<close> is absorbing.
  Rounding and overflow of 64-bit floats are not modelled.
\<close>

datatype npfloat = Finite real | NonFinite

fun fadd :: "npfloat \<Rightarrow> npfloat \<Rightarrow> npfloat" where
  "fadd (Finite a) (Finite b) = Finite (a + b)"
| "fadd _ _ = NonFinite"

fun fsub :: "npfloat \<Rightarrow> npfloat \<Rightarrow> npfloat" where
  "fsub (Finite a) (Finite b) = Finite (a - b)"
| "fsub _ _ = NonFinite"

fun fmul :: "npfloat \<Rightarrow> npfloat \<Rightarrow> npfloat" where
  "fmul (Finite a) (Finite b) = Finite (a * b)"
| "fmul _ _ = NonFinite"

fun fdiv :: "npfloat \<Rightarrow> npfloat \<Rightarrow> npfloat" where
  "fdiv (Finite a) (Finite b) = (if b = 0 then NonFinite else Finite (a / b))"
| "fdiv _ _ = NonFinite"

fun fsqrt :: "npfloat \<Rightarrow> npfloat" where
  "fsqrt (Finite a) = (if a < 0 then NonFinite else Finite (sqrt a))"
| "fsqrt NonFinite = NonFinite"

text \<open>
  An array is its shape and its elements in row-major order; numpy keeps
  \<open>length (data a) = prod_list (shape a)\<close>. A 0-dimensional array has shape \<open>[]\<close>
  and one element.
\<close>

record ndarray =
  shape :: "nat list"
  data :: "npfloat list"

definition well_formed :: "ndarray \<Rightarrow> bool" where
  "well_formed a \<longleftrightarrow> length (data a) = prod_list (shape a)"

datatype error = ValueError | AttributeError | GradientFailure string

text \<open>
  Broadcasting, as numpy does it: the shapes are aligned at their last dimension, and
  two dimensions are compatible when they are equal or one of them is 1.
\<close>

fun broadcast_dims :: "nat list \<Rightarrow> nat list \<Rightarrow> nat list option" where
  "broadcast_dims [] ys = Some ys"
| "broadcast_dims xs [] = Some xs"
| "broadcast_dims (a # as) (b # bs) =
     (if a = b \<or> b = 1 then map_option ((#) a) (broadcast_dims as bs)
      else if a = 1 then map_option ((#) b) (broadcast_dims as bs)
      else None)"

definition broadcast_shapes :: "nat list \<Rightarrow> nat list \<Rightarrow> nat list option" where
  "broadcast_shapes s1 s2 = map_option rev (broadcast_dims (rev s1) (rev s2))"

fun unravel :: "nat list \<Rightarrow> nat \<Rightarrow> nat list" where
  "unravel [] i = []"
| "unravel (d # ds) i = (i div prod_list ds) # unravel ds (i mod prod_list ds)"

fun ravel :: "nat list \<Rightarrow> nat list \<Rightarrow> nat" where
  "ravel (d # ds) (k # ks) = (if d = 1 then 0 else k) * prod_list ds + ravel ds ks"
| "ravel _ _ = 0"

definition src_index :: "nat list \<Rightarrow> nat list \<Rightarrow> nat \<Rightarrow> nat" where
  "src_index s target i = ravel s (drop (length target - length s) (unravel target i))"

definition np_binop ::
  "(npfloat \<Rightarrow> npfloat \<Rightarrow> npfloat) \<Rightarrow> ndarray \<Rightarrow> ndarray \<Rightarrow> error + ndarray" where
  "np_binop f a b =
     (case broadcast_shapes (shape a) (shape b) of
        None \<Rightarrow> Inl ValueError
      | Some s \<Rightarrow>
          Inr \<lparr>shape = s,
               data = map (\<lambda>i. f (data a ! src_index (shape a) s i)
                                 (data b ! src_index (shape b) s i))
                          [0..<prod_list s]\<rparr>)"

definition np_add :: "ndarray \<Rightarrow> ndarray \<Rightarrow> error + ndarray" where
  "np_add = np_binop fadd"

definition np_sub :: "ndarray \<Rightarrow> ndarray \<Rightarrow> error + ndarray" where
  "np_sub = np_binop fsub"

definition np_mul :: "ndarray \<Rightarrow> ndarray \<Rightarrow> error + ndarray" where
  "np_mul = np_binop fmul"

definition np_div :: "ndarray \<Rightarrow> ndarray \<Rightarrow> error + ndarray" where
  "np_div = np_binop fdiv"

text \<open>\<^verbatim>\<open>a += b\<close> on an array writes into \<open>a\<close>: the broadcast result must have the
  shape of \<open>a\<close>.\<close>

definition np_iadd :: "ndarray \<Rightarrow> ndarray \<Rightarrow> error + ndarray" where
  "np_iadd a b =
     (case np_add a b of
        Inl e \<Rightarrow> Inl e
      | Inr r \<Rightarrow> if shape r = shape a then Inr r else Inl ValueError)"

text \<open>A Python or numpy scalar combined with an array acts on every element.\<close>

definition scalar_mul :: "npfloat \<Rightarrow> ndarray \<Rightarrow> ndarray" where
  "scalar_mul c a = a\<lparr>data := map (fmul c) (data a)\<rparr>"

definition add_scalar :: "ndarray \<Rightarrow> npfloat \<Rightarrow> ndarray" where
  "add_scalar a c = a\<lparr>data := map (\<lambda>v. fadd v c) (data a)\<rparr>"

definition scalar_div :: "npfloat \<Rightarrow> ndarray \<Rightarrow> ndarray" where
  "scalar_div c a = a\<lparr>data := map (fdiv c) (data a)\<rparr>"

definition np_sqrt :: "ndarray \<Rightarrow> ndarray" where
  "np_sqrt a = a\<lparr>data := map fsqrt (data a)\<rparr>"

definition reshape :: "ndarray \<Rightarrow> nat list \<Rightarrow> error + ndarray" where
  "reshape a s =
     (if prod_list s = length (data a) then Inr \<lparr>shape = s, data = data a\<rparr>
      else Inl ValueError)"

definition eps :: npfloat where
  "eps = Finite (1 / 10 ^ 8)"

section \<open>The optimizers\<close>

text \<open>
  One constructor for each class of the source, holding the attributes its
  \<^verbatim>\<open>__init__\<close> sets. Accumulated state that is \<^verbatim>\<open>None\<close> in Python is \<open>None\<close>
  here. The hyperparameters are Python floats, modelled as reals; Adam's counter
  \<^verbatim>\<open>t\<close> is a Python integer that only counts up from 0. The type parameter is
  what an attribute holds: the array itself (\<open>ndarray optimizer\<close>) where only values
  matter, and the address of the array object (\<open>nat optimizer\<close>) in the store model
  below, where aliasing matters.
\<close>

datatype 'a optimizer =
    GradientDescentOptimizer real
  | MomentumOptimizer real real "'a option"
  | NesterovMomentumOptimizer real real "'a option"
  | AdagradOptimizer real "'a option"
  | RMSPropOptimizer real real "'a option"
  | AdamOptimizer real real real "'a option" "'a option" nat

text \<open>The constructors of the classes (\<^verbatim>\<open>__init__\<close>), without their default arguments.\<close>

definition init_GradientDescentOptimizer :: "real \<Rightarrow> 'a optimizer" where
  "init_GradientDescentOptimizer stepsize = GradientDescentOptimizer stepsize"

definition init_MomentumOptimizer :: "real \<Rightarrow> real \<Rightarrow> 'a optimizer" where
  "init_MomentumOptimizer stepsize momentum = MomentumOptimizer stepsize momentum None"

definition init_NesterovMomentumOptimizer :: "real \<Rightarrow> real \<Rightarrow> 'a optimizer" where
  "init_NesterovMomentumOptimizer stepsize momentum =
     NesterovMomentumOptimizer stepsize momentum None"

definition init_AdagradOptimizer :: "real \<Rightarrow> 'a optimizer" where
  "init_AdagradOptimizer stepsize = AdagradOptimizer stepsize None"

definition init_RMSPropOptimizer :: "real \<Rightarrow> real \<Rightarrow> 'a optimizer" where
  "init_RMSPropOptimizer stepsize decay = RMSPropOptimizer stepsize decay None"

definition init_AdamOptimizer :: "real \<Rightarrow> real \<Rightarrow> real \<Rightarrow> 'a optimizer" where
  "init_AdamOptimizer stepsize beta1 beta2 = AdamOptimizer stepsize beta1 beta2 None None 0"

text \<open>
  The attributes of an optimizer: the hyperparameters, and the accumulated state
  (\<^verbatim>\<open>accumulation\<close>, \<^verbatim>\<open>firstmoment\<close>, \<^verbatim>\<open>secondmoment\<close>, \<^verbatim>\<open>t\<close>).
\<close>

fun hyperparameters :: "'a optimizer \<Rightarrow> real list" where
  "hyperparameters (GradientDescentOptimizer stepsize) = [stepsize]"
| "hyperparameters (MomentumOptimizer stepsize momentum acc) = [stepsize, momentum]"
| "hyperparameters (NesterovMomentumOptimizer stepsize momentum acc) = [stepsize, momentum]"
| "hyperparameters (AdagradOptimizer stepsize acc) = [stepsize]"
| "hyperparameters (RMSPropOptimizer stepsize decay acc) = [stepsize, decay]"
| "hyperparameters (AdamOptimizer stepsize beta1 beta2 fm sm t) = [stepsize, beta1, beta2]"

fun accumulated_state :: "'a optimizer \<Rightarrow> 'a option list \<times> nat" where
  "accumulated_state (GradientDescentOptimizer stepsize) = ([], 0)"
| "accumulated_state (MomentumOptimizer stepsize momentum acc) = ([acc], 0)"
| "accumulated_state (NesterovMomentumOptimizer stepsize momentum acc) = ([acc], 0)"
| "accumulated_state (AdagradOptimizer stepsize acc) = ([acc], 0)"
| "accumulated_state (RMSPropOptimizer stepsize decay acc) = ([acc], 0)"
| "accumulated_state (AdamOptimizer stepsize beta1 beta2 fm sm t) = ([fm, sm], t)"

subsection \<open>\<^verbatim>\<open>apply_grad\<close>\<close>

text \<open>
  \<^verbatim>\<open>apply_grad\<close> returns the optimizer as the call leaves it, and either the new
  point or the exception an array operation raised. An assignment whose right-hand
  side raises does not happen; assignments before it stay.
\<close>

definition momentum_accumulation ::
  "real \<Rightarrow> real \<Rightarrow> ndarray option \<Rightarrow> ndarray \<Rightarrow> error + ndarray" where
  "momentum_accumulation stepsize momentum acc grad =
     (case acc of
        None \<Rightarrow> Inr (scalar_mul (Finite stepsize) grad)
      | Some a \<Rightarrow>
          np_add (scalar_mul (Finite momentum) a) (scalar_mul (Finite stepsize) grad))"

definition adagrad_accumulation :: "ndarray option \<Rightarrow> ndarray \<Rightarrow> error + ndarray" where
  "adagrad_accumulation acc grad =
     (case np_mul grad grad of
        Inl e \<Rightarrow> Inl e
      | Inr gg \<Rightarrow> (case acc of None \<Rightarrow> Inr gg | Some a \<Rightarrow> np_iadd a gg))"

definition rmsprop_accumulation ::
  "real \<Rightarrow> ndarray option \<Rightarrow> ndarray \<Rightarrow> error + ndarray" where
  "rmsprop_accumulation decay acc grad =
     (case np_mul grad grad of
        Inl e \<Rightarrow> Inl e
      | Inr gg \<Rightarrow>
          (case acc of
             None \<Rightarrow> Inr (scalar_mul (Finite (1 - decay)) gg)
           | Some a \<Rightarrow>
               np_add (scalar_mul (Finite decay) a) (scalar_mul (Finite (1 - decay)) gg)))"

text \<open>The value Adagrad and RMSProp return:
  \<^verbatim>\<open>x - (self.stepsize / np.sqrt(self.accumulation + 1e-8)) * grad\<close>.\<close>

definition scaled_descent :: "real \<Rightarrow> ndarray \<Rightarrow> ndarray \<Rightarrow> ndarray \<Rightarrow> error + ndarray" where
  "scaled_descent stepsize acc grad x =
     (case np_mul (scalar_div (Finite stepsize) (np_sqrt (add_scalar acc eps))) grad of
        Inl e \<Rightarrow> Inl e
      | Inr d \<Rightarrow> np_sub x d)"

definition adam_firstmoment :: "real \<Rightarrow> ndarray option \<Rightarrow> ndarray \<Rightarrow> error + ndarray" where
  "adam_firstmoment beta1 fm grad =
     (case fm of
        None \<Rightarrow> Inr grad
      | Some m \<Rightarrow> np_add (scalar_mul (Finite beta1) m) (scalar_mul (Finite (1 - beta1)) grad))"

definition adam_secondmoment :: "real \<Rightarrow> ndarray option \<Rightarrow> ndarray \<Rightarrow> error + ndarray" where
  "adam_secondmoment beta2 sm grad =
     (case np_mul grad grad of
        Inl e \<Rightarrow> Inl e
      | Inr gg \<Rightarrow>
          (case sm of
             None \<Rightarrow> Inr gg
           | Some v \<Rightarrow>
               np_add (scalar_mul (Finite beta2) v) (scalar_mul (Finite (1 - beta2)) gg)))"

definition adapted_stepsize :: "real \<Rightarrow> real \<Rightarrow> real \<Rightarrow> nat \<Rightarrow> npfloat" where
  "adapted_stepsize stepsize beta1 beta2 t =
     fdiv (fmul (Finite stepsize) (fsqrt (Finite (1 - beta2 ^ t)))) (Finite (1 - beta1 ^ t))"

definition adam_descent :: "npfloat \<Rightarrow> ndarray \<Rightarrow> ndarray \<Rightarrow> ndarray \<Rightarrow> error + ndarray" where
  "adam_descent adapted fm sm x =
     (case np_div (scalar_mul adapted fm) (add_scalar (np_sqrt sm) eps) of
        Inl e \<Rightarrow> Inl e
      | Inr d \<Rightarrow> np_sub x d)"

fun apply_grad ::
  "ndarray optimizer \<Rightarrow> ndarray \<Rightarrow> ndarray \<Rightarrow> ndarray optimizer \<times> (error + ndarray)" where
  "apply_grad (GradientDescentOptimizer stepsize) grad x =
     (GradientDescentOptimizer stepsize, np_sub x (scalar_mul (Finite stepsize) grad))"
| "apply_grad (MomentumOptimizer stepsize momentum acc) grad x =
     (case momentum_accumulation stepsize momentum acc grad of
        Inl e \<Rightarrow> (MomentumOptimizer stepsize momentum acc, Inl e)
      | Inr a \<Rightarrow> (MomentumOptimizer stepsize momentum (Some a), np_sub x a))"
| "apply_grad (NesterovMomentumOptimizer stepsize momentum acc) grad x =
     (case momentum_accumulation stepsize momentum acc grad of
        Inl e \<Rightarrow> (NesterovMomentumOptimizer stepsize momentum acc, Inl e)
      | Inr a \<Rightarrow> (NesterovMomentumOptimizer stepsize momentum (Some a), np_sub x a))"
| "apply_grad (AdagradOptimizer stepsize acc) grad x =
     (case adagrad_accumulation acc grad of
        Inl e \<Rightarrow> (AdagradOptimizer stepsize acc, Inl e)
      | Inr a \<Rightarrow> (AdagradOptimizer stepsize (Some a), scaled_descent stepsize a grad x))"
| "apply_grad (RMSPropOptimizer stepsize decay acc) grad x =
     (case rmsprop_accumulation decay acc grad of
        Inl e \<Rightarrow> (RMSPropOptimizer stepsize decay acc, Inl e)
      | Inr a \<Rightarrow> (RMSPropOptimizer stepsize decay (Some a), scaled_descent stepsize a grad x))"
| "apply_grad (AdamOptimizer stepsize beta1 beta2 fm sm t) grad x =
     (case adam_firstmoment beta1 fm grad of
        Inl e \<Rightarrow> (AdamOptimizer stepsize beta1 beta2 fm sm (t + 1), Inl e)
      | Inr fm' \<Rightarrow>
          (case adam_secondmoment beta2 sm grad of
             Inl e \<Rightarrow> (AdamOptimizer stepsize beta1 beta2 (Some fm') sm (t + 1), Inl e)
           | Inr sm' \<Rightarrow>
               (AdamOptimizer stepsize beta1 beta2 (Some fm') (Some sm') (t + 1),
                adam_descent (adapted_stepsize stepsize beta1 beta2 (t + 1)) fm' sm' x)))"

subsection \<open>\<^verbatim>\<open>compute_grad\<close>, \<^verbatim>\<open>step\<close> and \<^verbatim>\<open>reset\<close>\<close>

text \<open>
  The differentiation engine is a parameter: \<open>autograd_grad objective_fn x\<close> is what
  \<^verbatim>\<open>autograd.grad(objective_fn)(x)\<close> returns or raises. A supplied \<^verbatim>\<open>grad_fn\<close> is a
  function from the point to a gradient or an exception.
\<close>

type_synonym gradient_fn = "ndarray \<Rightarrow> error + ndarray"

definition call_grad ::
  "('f \<Rightarrow> gradient_fn) \<Rightarrow> 'f \<Rightarrow> gradient_fn option \<Rightarrow> ndarray \<Rightarrow> error + ndarray" where
  "call_grad autograd_grad objective_fn grad_fn point =
     (case grad_fn of
        Some gf \<Rightarrow> gf point
      | None \<Rightarrow> autograd_grad objective_fn point)"

text \<open>The point at which \<^verbatim>\<open>NesterovMomentumOptimizer.compute_grad\<close> takes the gradient.\<close>

definition shifted_x :: "real \<Rightarrow> ndarray option \<Rightarrow> ndarray \<Rightarrow> error + ndarray" where
  "shifted_x momentum acc x =
     (case acc of
        None \<Rightarrow> Inr x
      | Some a \<Rightarrow> np_sub x (scalar_mul (Finite momentum) a))"

fun compute_grad ::
  "('f \<Rightarrow> gradient_fn) \<Rightarrow> ndarray optimizer \<Rightarrow> 'f \<Rightarrow> ndarray \<Rightarrow> gradient_fn option
     \<Rightarrow> error + ndarray" where
  "compute_grad autograd_grad (NesterovMomentumOptimizer stepsize momentum acc)
       objective_fn x grad_fn =
     (case shifted_x momentum acc x of
        Inl e \<Rightarrow> Inl e
      | Inr sx \<Rightarrow> call_grad autograd_grad objective_fn grad_fn sx)"
| "compute_grad autograd_grad opt objective_fn x grad_fn =
     call_grad autograd_grad objective_fn grad_fn x"

definition step ::
  "('f \<Rightarrow> gradient_fn) \<Rightarrow> ndarray optimizer \<Rightarrow> 'f \<Rightarrow> ndarray \<Rightarrow> gradient_fn option
     \<Rightarrow> ndarray optimizer \<times> (error + ndarray)" where
  "step autograd_grad opt objective_fn x grad_fn =
     (let x_shape = shape x in
      case compute_grad autograd_grad opt objective_fn x grad_fn of
        Inl e \<Rightarrow> (opt, Inl e)
      | Inr g \<Rightarrow>
          (case (if length x_shape > 1 then reshape g x_shape else Inr g) of
             Inl e \<Rightarrow> (opt, Inl e)
           | Inr g' \<Rightarrow> apply_grad opt g' x))"

text \<open>\<^verbatim>\<open>reset\<close> is defined by the classes with memory; the base class has no such
  method, and calling it raises \<^verbatim>\<open>AttributeError\<close>.\<close>

fun reset :: "'a optimizer \<Rightarrow> error + 'a optimizer" where
  "reset (GradientDescentOptimizer stepsize) = Inl AttributeError"
| "reset (MomentumOptimizer stepsize momentum acc) =
     Inr (MomentumOptimizer stepsize momentum None)"
| "reset (NesterovMomentumOptimizer stepsize momentum acc) =
     Inr (NesterovMomentumOptimizer stepsize momentum None)"
| "reset (AdagradOptimizer stepsize acc) = Inr (AdagradOptimizer stepsize None)"
| "reset (RMSPropOptimizer stepsize decay acc) = Inr (RMSPropOptimizer stepsize decay None)"
| "reset (AdamOptimizer stepsize beta1 beta2 fm sm t) =
     Inr (AdamOptimizer stepsize beta1 beta2 None None 0)"

section \<open>Arrays of finite numbers\<close>

text \<open>
  \<open>array_of s f\<close> is the array of shape \<open>s\<close> whose element at the flat (row-major)
  index \<open>i\<close> is the real number \<open>f i\<close>. Every well-formed array without \<open>NonFinite\<close>
  elements is of this form (\<open>array_of_the_real\<close> below).
\<close>

definition array_of :: "nat list \<Rightarrow> (nat \<Rightarrow> real) \<Rightarrow> ndarray" where
  "array_of s f = \<lparr>shape = s, data = map (\<lambda>i. Finite (f i)) [0..<prod_list s]\<rparr>"

fun the_real :: "npfloat \<Rightarrow> real" where
  "the_real (Finite r) = r"
| "the_real NonFinite = 0"

section \<open>Construction, memory and repeated calls\<close>

text \<open>The optimizer a constructor call with the same hyperparameters returns.\<close>

fun just_constructed :: "'a optimizer \<Rightarrow> 'a optimizer" where
  "just_constructed (GradientDescentOptimizer stepsize) =
     init_GradientDescentOptimizer stepsize"
| "just_constructed (MomentumOptimizer stepsize momentum acc) =
     init_MomentumOptimizer stepsize momentum"
| "just_constructed (NesterovMomentumOptimizer stepsize momentum acc) =
     init_NesterovMomentumOptimizer stepsize momentum"
| "just_constructed (AdagradOptimizer stepsize acc) = init_AdagradOptimizer stepsize"
| "just_constructed (RMSPropOptimizer stepsize decay acc) =
     init_RMSPropOptimizer stepsize decay"
| "just_constructed (AdamOptimizer stepsize beta1 beta2 fm sm t) =
     init_AdamOptimizer stepsize beta1 beta2"

text \<open>The variants with memory: every class but the base class.\<close>

fun has_memory :: "'a optimizer \<Rightarrow> bool" where
  "has_memory (GradientDescentOptimizer stepsize) = False"
| "has_memory opt = True"

text \<open>The optimizer after the caller has called \<^verbatim>\<open>step\<close> once for each point and
  \<^verbatim>\<open>grad_fn\<close> of a list, in turn, whatever the calls returned or raised.\<close>

fun step_seq ::
  "('f \<Rightarrow> gradient_fn) \<Rightarrow> ndarray optimizer \<Rightarrow> 'f \<Rightarrow> (ndarray \<times> gradient_fn option) list
     \<Rightarrow> ndarray optimizer" where
  "step_seq autograd_grad opt objective_fn [] = opt"
| "step_seq autograd_grad opt objective_fn ((x, grad_fn) # rest) =
     step_seq autograd_grad (fst (step autograd_grad opt objective_fn x grad_fn))
       objective_fn rest"

section \<open>Array objects and references\<close>

text \<open>
  In Python an array is an object and a variable or attribute holds a reference to it.
  The store lists the array objects; the address of an object is its index. An
  arithmetic expression creates a new object for its result, an assignment to an
  attribute stores a reference, and only \<^verbatim>\<open>self.accumulation += grad * grad\<close> in
  \<^verbatim>\<open>AdagradOptimizer.apply_grad\<close> writes into an existing object. Objects for the
  intermediate results of an expression are not kept. The gradient computation
  returns a new array object.
\<close>

type_synonym store = "ndarray list"

definition return_new ::
  "store \<Rightarrow> nat optimizer \<Rightarrow> error + ndarray \<Rightarrow> store \<times> nat optimizer \<times> (error + nat)" where
  "return_new st opt r =
     (case r of
        Inl e \<Rightarrow> (st, opt, Inl e)
      | Inr v \<Rightarrow> (st @ [v], opt, Inr (length st)))"

fun apply_grad_store ::
  "store \<Rightarrow> nat optimizer \<Rightarrow> nat \<Rightarrow> nat \<Rightarrow> store \<times> nat optimizer \<times> (error + nat)" where
  "apply_grad_store st (GradientDescentOptimizer stepsize) grad x =
     return_new st (GradientDescentOptimizer stepsize)
       (np_sub (st ! x) (scalar_mul (Finite stepsize) (st ! grad)))"
| "apply_grad_store st (MomentumOptimizer stepsize momentum acc) grad x =
     (case momentum_accumulation stepsize momentum (map_option ((!) st) acc) (st ! grad) of
        Inl e \<Rightarrow> (st, MomentumOptimizer stepsize momentum acc, Inl e)
      | Inr a \<Rightarrow>
          (let st1 = st @ [a]; acc' = length st in
           return_new st1 (MomentumOptimizer stepsize momentum (Some acc'))
             (np_sub (st1 ! x) (st1 ! acc'))))"
| "apply_grad_store st (NesterovMomentumOptimizer stepsize momentum acc) grad x =
     (case momentum_accumulation stepsize momentum (map_option ((!) st) acc) (st ! grad) of
        Inl e \<Rightarrow> (st, NesterovMomentumOptimizer stepsize momentum acc, Inl e)
      | Inr a \<Rightarrow>
          (let st1 = st @ [a]; acc' = length st in
           return_new st1 (NesterovMomentumOptimizer stepsize momentum (Some acc'))
             (np_sub (st1 ! x) (st1 ! acc'))))"
| "apply_grad_store st (AdagradOptimizer stepsize acc) grad x =
     (case np_mul (st ! grad) (st ! grad) of
        Inl e \<Rightarrow> (st, AdagradOptimizer stepsize acc, Inl e)
      | Inr gg \<Rightarrow>
          (case acc of
             None \<Rightarrow>
               (let st1 = st @ [gg]; acc' = length st in
                return_new st1 (AdagradOptimizer stepsize (Some acc'))
                  (scaled_descent stepsize (st1 ! acc') (st1 ! grad) (st1 ! x)))
           | Some a \<Rightarrow>
               (case np_iadd (st ! a) gg of
                  Inl e \<Rightarrow> (st, AdagradOptimizer stepsize acc, Inl e)
                | Inr v \<Rightarrow>
                    (let st1 = st[a := v] in
                     return_new st1 (AdagradOptimizer stepsize (Some a))
                       (scaled_descent stepsize (st1 ! a) (st1 ! grad) (st1 ! x))))))"
| "apply_grad_store st (RMSPropOptimizer stepsize decay acc) grad x =
     (case rmsprop_accumulation decay (map_option ((!) st) acc) (st ! grad) of
        Inl e \<Rightarrow> (st, RMSPropOptimizer stepsize decay acc, Inl e)
      | Inr a \<Rightarrow>
          (let st1 = st @ [a]; acc' = length st in
           return_new st1 (RMSPropOptimizer stepsize decay (Some acc'))
             (scaled_descent stepsize (st1 ! acc') (st1 ! grad) (st1 ! x))))"
| "apply_grad_store st (AdamOptimizer stepsize beta1 beta2 fm sm t) grad x =
     (case (case fm of
              None \<Rightarrow> Inr (st, grad)
            | Some m \<Rightarrow>
                (case adam_firstmoment beta1 (Some (st ! m)) (st ! grad) of
                   Inl e \<Rightarrow> Inl e
                 | Inr v \<Rightarrow> Inr (st @ [v], length st))) of
        Inl e \<Rightarrow> (st, AdamOptimizer stepsize beta1 beta2 fm sm (t + 1), Inl e)
      | Inr (st1, fm') \<Rightarrow>
          (case adam_secondmoment beta2 (map_option ((!) st1) sm) (st1 ! grad) of
             Inl e \<Rightarrow> (st1, AdamOptimizer stepsize beta1 beta2 (Some fm') sm (t + 1), Inl e)
           | Inr v \<Rightarrow>
               (let st2 = st1 @ [v]; sm' = length st1 in
                return_new st2
                  (AdamOptimizer stepsize beta1 beta2 (Some fm') (Some sm') (t + 1))
                  (adam_descent (adapted_stepsize stepsize beta1 beta2 (t + 1))
                     (st2 ! fm') (st2 ! sm') (st2 ! x)))))"

text \<open>\<^verbatim>\<open>compute_grad\<close> reads the point and the accumulation, and its result is a new
  object; \<^verbatim>\<open>g.reshape(x_shape)\<close> makes a new array object over the elements of
  \<open>g\<close>.\<close>

definition compute_grad_store ::
  "('f \<Rightarrow> gradient_fn) \<Rightarrow> store \<Rightarrow> nat optimizer \<Rightarrow> 'f \<Rightarrow> nat \<Rightarrow> gradient_fn option
     \<Rightarrow> store \<times> (error + nat)" where
  "compute_grad_store autograd_grad st opt objective_fn x grad_fn =
     (case compute_grad autograd_grad (map_optimizer ((!) st) opt) objective_fn (st ! x) grad_fn of
        Inl e \<Rightarrow> (st, Inl e)
      | Inr v \<Rightarrow> (st @ [v], Inr (length st)))"

definition step_store ::
  "('f \<Rightarrow> gradient_fn) \<Rightarrow> store \<Rightarrow> nat optimizer \<Rightarrow> 'f \<Rightarrow> nat \<Rightarrow> gradient_fn option
     \<Rightarrow> store \<times> nat optimizer \<times> (error + nat)" where
  "step_store autograd_grad st opt objective_fn x grad_fn =
     (let x_shape = shape (st ! x) in
      case compute_grad_store autograd_grad st opt objective_fn x grad_fn of
        (st1, Inl e) \<Rightarrow> (st1, opt, Inl e)
      | (st1, Inr g) \<Rightarrow>
          (if length x_shape > 1 then
             (case reshape (st1 ! g) x_shape of
                Inl e \<Rightarrow> (st1, opt, Inl e)
              | Inr v \<Rightarrow> apply_grad_store (st1 @ [v]) opt (length st1) x)
           else apply_grad_store st1 opt g x))"

section \<open>A differentiation engine for constant objectives\<close>

text \<open>The gradient of a constant objective is zero everywhere: an array of the shape of
  the point, filled with zeros.\<close>

definition zero_grad_fn :: gradient_fn where
  "zero_grad_fn p = Inr (p\<lparr>data := map (\<lambda>v. Finite 0) (data p)\<rparr>)"

definition autograd_constant :: "unit \<Rightarrow> gradient_fn" where
  "autograd_constant objective_fn = zero_grad_fn"

section \<open>Properties of the array operations\<close>

lemma broadcast_dims_same: "broadcast_dims s s = Some s"
  by (induction s) auto

lemma broadcast_shapes_same: "broadcast_shapes s s = Some s"
  by (simp add: broadcast_shapes_def broadcast_dims_same)

lemma ravel_unravel: "i < prod_list s \<Longrightarrow> ravel s (unravel s i) = i"
proof (induction s arbitrary: i)
  case Nil
  then show ?case by simp
next
  case (Cons d ds)
  from Cons.prems have pos: "0 < prod_list ds"
    by (cases "prod_list ds = 0") auto
  have rest: "ravel ds (unravel ds (i mod prod_list ds)) = i mod prod_list ds"
    using pos by (intro Cons.IH) simp
  show ?case
  proof (cases "d = 1")
    case True
    with Cons.prems have "i < prod_list ds" by simp
    with rest True show ?thesis by simp
  next
    case False
    with rest show ?thesis by simp
  qed
qed

lemma src_index_same: "i < prod_list s \<Longrightarrow> src_index s s i = i"
  by (simp add: src_index_def ravel_unravel)

text \<open>On two well-formed arrays of one shape, a binary operation acts element by
  element.\<close>

lemma np_binop_same_shape:
  assumes "shape a = shape b" "well_formed a" "well_formed b"
  shows "np_binop f a b = Inr \<lparr>shape = shape a, data = map2 f (data a) (data b)\<rparr>"
proof -
  let ?n = "prod_list (shape a)"
  have la: "length (data a) = ?n" and lb: "length (data b) = ?n"
    using assms by (simp_all add: well_formed_def)
  have "map (\<lambda>i. f (data a ! src_index (shape a) (shape a) i)
                    (data b ! src_index (shape a) (shape a) i)) [0..<?n]
        = map2 f (data a) (data b)"
    by (rule nth_equalityI) (simp_all add: la lb src_index_same)
  then show ?thesis
    using assms(1) by (simp add: np_binop_def broadcast_shapes_same)
qed

lemma shape_array_of [simp]: "shape (array_of s f) = s"
  by (simp add: array_of_def)

lemma well_formed_array_of [simp]: "well_formed (array_of s f)"
  by (simp add: well_formed_def array_of_def)

lemma array_of_cong:
  "(\<And>i. i < prod_list s \<Longrightarrow> f i = g i) \<Longrightarrow> array_of s f = array_of s g"
  by (simp add: array_of_def)

lemma array_of_the_real:
  assumes "well_formed a" "NonFinite \<notin> set (data a)"
  shows "a = array_of (shape a) (\<lambda>i. the_real (data a ! i))"
proof -
  have fin: "v \<noteq> NonFinite \<Longrightarrow> Finite (the_real v) = v" for v
    by (cases v) auto
  have "data a ! i = Finite (the_real (data a ! i))" if "i < length (data a)" for i
  proof -
    from that have "data a ! i \<in> set (data a)" by simp
    with assms(2) have "data a ! i \<noteq> NonFinite" by metis
    then show ?thesis by (simp add: fin)
  qed
  then have "data a = map (\<lambda>i. Finite (the_real (data a ! i))) [0..<prod_list (shape a)]"
    using assms(1) by (intro nth_equalityI) (simp_all add: well_formed_def)
  then show ?thesis
    by (simp add: array_of_def)
qed

lemma np_binop_array_of:
  "np_binop h (array_of s f) (array_of s g) =
     Inr \<lparr>shape = s, data = map (\<lambda>i. h (Finite (f i)) (Finite (g i))) [0..<prod_list s]\<rparr>"
  by (simp add: np_binop_def broadcast_shapes_same array_of_def src_index_same cong: map_cong)

lemma np_add_array_of [simp]:
  "np_add (array_of s f) (array_of s g) = Inr (array_of s (\<lambda>i. f i + g i))"
  by (simp add: np_add_def np_binop_array_of) (simp add: array_of_def)

lemma np_sub_array_of [simp]:
  "np_sub (array_of s f) (array_of s g) = Inr (array_of s (\<lambda>i. f i - g i))"
  by (simp add: np_sub_def np_binop_array_of) (simp add: array_of_def)

lemma np_mul_array_of [simp]:
  "np_mul (array_of s f) (array_of s g) = Inr (array_of s (\<lambda>i. f i * g i))"
  by (simp add: np_mul_def np_binop_array_of) (simp add: array_of_def)

lemma np_div_array_of:
  "(\<And>i. i < prod_list s \<Longrightarrow> g i \<noteq> 0) \<Longrightarrow>
   np_div (array_of s f) (array_of s g) = Inr (array_of s (\<lambda>i. f i / g i))"
  by (simp add: np_div_def np_binop_array_of) (simp add: array_of_def)

lemma np_iadd_array_of [simp]:
  "np_iadd (array_of s f) (array_of s g) = Inr (array_of s (\<lambda>i. f i + g i))"
  by (simp add: np_iadd_def)

lemma scalar_mul_array_of [simp]:
  "scalar_mul (Finite c) (array_of s f) = array_of s (\<lambda>i. c * f i)"
  by (simp add: scalar_mul_def array_of_def)

lemma add_scalar_array_of [simp]:
  "add_scalar (array_of s f) (Finite c) = array_of s (\<lambda>i. f i + c)"
  by (simp add: add_scalar_def array_of_def)

lemma scalar_div_array_of:
  "(\<And>i. i < prod_list s \<Longrightarrow> f i \<noteq> 0) \<Longrightarrow>
   scalar_div (Finite c) (array_of s f) = array_of s (\<lambda>i. c / f i)"
  by (simp add: scalar_div_def array_of_def)

lemma np_sqrt_array_of:
  "(\<And>i. i < prod_list s \<Longrightarrow> 0 \<le> f i) \<Longrightarrow>
   np_sqrt (array_of s f) = array_of s (\<lambda>i. sqrt (f i))"
  by (auto simp: np_sqrt_def array_of_def not_less)

lemma reshape_array_of:
  "prod_list s' = prod_list s \<Longrightarrow> reshape (array_of s f) s' = Inr (array_of s' f)"
  by (simp add: reshape_def array_of_def)

section \<open>The update rules on arrays of finite numbers\<close>

lemma scaled_descent_array_of:
  assumes "\<And>i. i < prod_list s \<Longrightarrow> 0 \<le> c i"
  shows "scaled_descent stepsize (array_of s c) (array_of s g) (array_of s x) =
      Inr (array_of s (\<lambda>i. x i - stepsize / sqrt (c i + 1 / 10 ^ 8) * g i))"
proof -
  have pos: "0 < c i + 1 / 10 ^ 8" if "i < prod_list s" for i
    using assms[OF that] by simp
  have "np_sqrt (array_of s (\<lambda>i. c i + 1 / 10 ^ 8)) = array_of s (\<lambda>i. sqrt (c i + 1 / 10 ^ 8))"
    using pos by (intro np_sqrt_array_of) (simp add: less_imp_le)
  moreover have "scalar_div (Finite stepsize) (array_of s (\<lambda>i. sqrt (c i + 1 / 10 ^ 8))) =
      array_of s (\<lambda>i. stepsize / sqrt (c i + 1 / 10 ^ 8))"
    using pos by (intro scalar_div_array_of) fastforce
  ultimately show ?thesis
    by (simp add: scaled_descent_def eps_def)
qed


lemma adam_descent_array_of:
  assumes "\<And>i. i < prod_list s \<Longrightarrow> 0 \<le> v i"
  shows "adam_descent (Finite c) (array_of s m) (array_of s v) (array_of s x) =
      Inr (array_of s (\<lambda>i. x i - c * m i / (sqrt (v i) + 1 / 10 ^ 8)))"
proof -
  have "np_sqrt (array_of s v) = array_of s (\<lambda>i. sqrt (v i))"
    using assms by (intro np_sqrt_array_of)
  moreover have "np_div (array_of s (\<lambda>i. c * m i)) (array_of s (\<lambda>i. sqrt (v i) + 1 / 10 ^ 8)) =
      Inr (array_of s (\<lambda>i. c * m i / (sqrt (v i) + 1 / 10 ^ 8)))"
  proof (intro np_div_array_of)
    fix i assume "i < prod_list s"
    then have "0 \<le> sqrt (v i)" using assms by simp
    then show "sqrt (v i) + 1 / 10 ^ 8 \<noteq> 0" by (simp add: add_nonneg_eq_0_iff)
  qed
  ultimately show ?thesis
    by (simp add: adam_descent_def eps_def)
qed

lemma adagrad_state_first:
  "fst (apply_grad (AdagradOptimizer stepsize None) (array_of s g) x) =
     AdagradOptimizer stepsize (Some (array_of s (\<lambda>i. g i * g i)))"
  by (simp add: adagrad_accumulation_def)

lemma adagrad_state_later:
  "fst (apply_grad (AdagradOptimizer stepsize (Some (array_of s a))) (array_of s g) x) =
     AdagradOptimizer stepsize (Some (array_of s (\<lambda>i. a i + g i * g i)))"
  by (simp add: adagrad_accumulation_def)

text \<open>A step of Adagrad whose gradient computation returns a finite array of the
  shape of the point accumulates that gradient's squares; after any number of such
  steps the accumulation is what it was plus the squares of the gradients.\<close>

lemma adagrad_step_state:
  assumes "shape x = s"
    and "call_grad autograd_grad objective_fn grad_fn x = Inr (array_of s g)"
  shows "fst (step autograd_grad (AdagradOptimizer stepsize acc) objective_fn x grad_fn) =
         fst (apply_grad (AdagradOptimizer stepsize acc) (array_of s g) x)"
  using assms by (simp add: step_def reshape_array_of del: apply_grad.simps)

lemma adagrad_step_seq_later:
  assumes "list_all2 (\<lambda>(x, grad_fn) g. shape x = s \<and>
             call_grad autograd_grad objective_fn grad_fn x = Inr (array_of s g)) calls gs"
  shows "step_seq autograd_grad (AdagradOptimizer stepsize (Some (array_of s a)))
           objective_fn calls =
         AdagradOptimizer stepsize (Some (array_of s (\<lambda>i. a i + (\<Sum>g\<leftarrow>gs. g i * g i))))"
  using assms
proof (induction calls gs arbitrary: a rule: list_all2_induct)
  case Nil
  then show ?case by simp
next
  case (Cons call calls g gs)
  obtain x grad_fn where call: "call = (x, grad_fn)"
    by (cases call)
  with Cons.hyps(1) have h: "shape x = s"
    "call_grad autograd_grad objective_fn grad_fn x = Inr (array_of s g)"
    by simp_all
  show ?case
    unfolding call using Cons.IH[of "\<lambda>i. a i + g i * g i"]
    by (simp add: adagrad_step_state[OF h] adagrad_state_later add.assoc
        del: apply_grad.simps)
qed

lemma adagrad_step_seq:
  assumes "list_all2 (\<lambda>(x, grad_fn) g. shape x = s \<and>
             call_grad autograd_grad objective_fn grad_fn x = Inr (array_of s g)) calls gs"
    and "gs \<noteq> []"
  shows "step_seq autograd_grad (AdagradOptimizer stepsize None) objective_fn calls =
         AdagradOptimizer stepsize (Some (array_of s (\<lambda>i. \<Sum>g\<leftarrow>gs. g i * g i)))"
proof -
  from assms obtain call calls' g gs' where calls: "calls = call # calls'"
    and gs: "gs = g # gs'"
    by (cases gs; cases calls) auto
  obtain x grad_fn where call: "call = (x, grad_fn)"
    by (cases call)
  from assms(1) have h: "shape x = s"
    "call_grad autograd_grad objective_fn grad_fn x = Inr (array_of s g)"
    and rest: "list_all2 (\<lambda>(x, grad_fn) g. shape x = s \<and>
             call_grad autograd_grad objective_fn grad_fn x = Inr (array_of s g)) calls' gs'"
    unfolding calls gs call by simp_all
  show ?thesis
    unfolding calls gs call
    using adagrad_step_seq_later[OF rest, of stepsize "\<lambda>i. g i * g i"]
    by (simp add: adagrad_step_state[OF h] adagrad_state_first del: apply_grad.simps)
qed

lemma sqrt_four_eps_bounds:
  "2 < sqrt (4 + 1 / 10 ^ 8)" "sqrt (4 + 1 / 10 ^ 8) < 2 + 1 / 10 ^ 8"
proof -
  show "2 < sqrt (4 + 1 / 10 ^ 8)"
    by (rule real_less_rsqrt) simp
  show "sqrt (4 + 1 / 10 ^ 8) < 2 + 1 / 10 ^ 8"
    by (rule real_less_lsqrt) (simp_all add: power2_eq_square)
qed

lemma adagrad_example_value:
  "\<bar>1 - 1 / 10 / sqrt (4 + 1 / 10 ^ 8) * 2 - 9 / 10\<bar> < 1 / 10 ^ 4"
proof -
  let ?r = "sqrt (4 + 1 / 10 ^ 8)"
  have lo: "2 < ?r" and hi: "?r < 2 + 1 / 10 ^ 8"
    using sqrt_four_eps_bounds by simp_all
  have "1 / 10 / ?r * 2 = 1 / (5 * ?r)" by simp
  moreover have "1 / (5 * ?r) < 1 / 10"
    using lo by (simp add: field_simps)
  moreover have "1 / 10 - 1 / 10 ^ 4 < 1 / (5 * ?r)"
  proof -
    have "5 * ?r < 5 * (2 + 1 / 10 ^ 8)" using hi by simp
    moreover have "0 < 5 * ?r" using lo by simp
    ultimately have "1 / (5 * (2 + 1 / 10 ^ 8)) < 1 / (5 * ?r)"
      by (intro divide_strict_left_mono) simp_all
    moreover have "(1::real) / 10 - 1 / 10 ^ 4 < 1 / (5 * (2 + 1 / 10 ^ 8))" by simp
    ultimately show ?thesis by linarith
  qed
  ultimately show ?thesis by (simp add: abs_less_iff)
qed

lemma zero_gradient_apply:
  assumes "opt = just_constructed opt"
    and "\<forall>stepsize beta1 beta2 fm sm t.
           opt = AdamOptimizer stepsize beta1 beta2 fm sm t \<longrightarrow> beta1 \<noteq> 1 \<and> beta2 \<le> 1"
  shows "snd (apply_grad opt (array_of s (\<lambda>i. 0)) (array_of s x)) = Inr (array_of s x)"
proof (cases opt)
  case (GradientDescentOptimizer stepsize)
  then show ?thesis by simp
next
  case (MomentumOptimizer stepsize momentum acc)
  with assms(1) show ?thesis
    by (simp add: init_MomentumOptimizer_def momentum_accumulation_def)
next
  case (NesterovMomentumOptimizer stepsize momentum acc)
  with assms(1) show ?thesis
    by (simp add: init_NesterovMomentumOptimizer_def momentum_accumulation_def)
next
  case (AdagradOptimizer stepsize acc)
  with assms(1) show ?thesis
    using scaled_descent_array_of[of s "\<lambda>i. 0" stepsize "\<lambda>i. 0" x]
    by (simp add: init_AdagradOptimizer_def adagrad_accumulation_def)
next
  case (RMSPropOptimizer stepsize decay acc)
  with assms(1) show ?thesis
    using scaled_descent_array_of[of s "\<lambda>i. 0" stepsize "\<lambda>i. 0" x]
    by (simp add: init_RMSPropOptimizer_def rmsprop_accumulation_def)
next
  case (AdamOptimizer stepsize beta1 beta2 fm sm t)
  with assms(2) have b: "beta1 \<noteq> 1" "beta2 \<le> 1" by simp_all
  then have "adapted_stepsize stepsize beta1 beta2 (Suc 0) =
      Finite (stepsize * sqrt (1 - beta2) / (1 - beta1))"
    by (simp add: adapted_stepsize_def)
  with AdamOptimizer assms(1) show ?thesis
    using adam_descent_array_of[of s "\<lambda>i. 0" _ "\<lambda>i. 0" x]
    by (simp add: init_AdamOptimizer_def adam_firstmoment_def adam_secondmoment_def)
qed

lemma return_new_frame:
  assumes "return_new st1 opt1 v = (st', opt', r)"
  shows "length st1 \<le> length st' \<and> (\<forall>a<length st1. st' ! a = st1 ! a)
         \<and> (\<forall>a. r = Inr a \<longrightarrow> a = length st1 \<and> a < length st') \<and> opt' = opt1"
  using assms by (auto simp: return_new_def nth_append split: sum.splits)

lemma return_new_value:
  assumes "return_new st1 opt1 v = (st', opt', r)"
  shows "opt' = opt1 \<and> map_sum id ((!) st') r = v \<and> (\<forall>a<length st1. st' ! a = st1 ! a)
     \<and> length st1 \<le> length st'"
  using assms by (auto simp: return_new_def nth_append split: sum.splits)

text \<open>\<^verbatim>\<open>apply_grad\<close> on the store creates objects, and the only object existing
  before the call that it writes into is the accumulation of an Adagrad optimizer.\<close>

lemma apply_grad_store_writes:
  assumes "apply_grad_store st opt g x = (st', opt', r)"
  shows "length st \<le> length st'
       \<and> (\<forall>a<length st. (\<forall>stepsize. opt \<noteq> AdagradOptimizer stepsize (Some a)) \<longrightarrow>
             st' ! a = st ! a)
       \<and> (\<forall>a. r = Inr a \<longrightarrow> length st \<le> a \<and> a < length st')"
proof (cases opt)
  case (GradientDescentOptimizer stepsize)
  with assms show ?thesis
    by (auto simp: nth_append dest!: return_new_frame)
next
  case (MomentumOptimizer stepsize momentum acc)
  with assms show ?thesis
    by (auto simp: nth_append Let_def split: sum.splits dest!: return_new_frame)
next
  case (NesterovMomentumOptimizer stepsize momentum acc)
  with assms show ?thesis
    by (auto simp: nth_append Let_def split: sum.splits dest!: return_new_frame)
next
  case (AdagradOptimizer stepsize acc)
  with assms show ?thesis
    by (auto simp: nth_append Let_def split: sum.splits option.splits dest!: return_new_frame)
next
  case (RMSPropOptimizer stepsize decay acc)
  with assms show ?thesis
    by (auto simp: nth_append Let_def split: sum.splits dest!: return_new_frame)
next
  case (AdamOptimizer stepsize beta1 beta2 fm sm t)
  with assms show ?thesis
    by (auto simp: nth_append Let_def split: sum.splits option.splits prod.splits
        dest!: return_new_frame)
qed

lemma not_adagrad_accumulation:
  "a \<notin> set_optimizer opt \<Longrightarrow> opt \<noteq> AdagradOptimizer stepsize (Some a)"
  by auto

section \<open>The store model agrees with the value model\<close>

lemma map_option_nth_append:
  "set_option r \<subseteq> {..<length st} \<Longrightarrow>
   map_option ((!) (st @ ys)) r = map_option ((!) st) r"
  by (cases r) (auto simp: nth_append)

lemma map_optimizer_nth_append:
  "set_optimizer opt \<subseteq> {..<length st} \<Longrightarrow>
   map_optimizer ((!) (st @ ys)) opt = map_optimizer ((!) st) opt"
  by (cases opt) (auto simp: map_option_nth_append)

text \<open>Where the gradient and the point are not the optimizer's own state objects,
  reading the store after \<open>apply_grad_store\<close> gives what \<open>apply_grad\<close> computes on
  the values.\<close>

lemma apply_grad_store_refines:
  assumes "apply_grad_store st opt g x = (st', opt', r)"
    and "set_optimizer opt \<subseteq> {..<length st}" "g < length st" "x < length st"
    and "g \<notin> set_optimizer opt" "x \<notin> set_optimizer opt"
  shows "apply_grad (map_optimizer ((!) st) opt) (st ! g) (st ! x) =
           (map_optimizer ((!) st') opt', map_sum id ((!) st') r)"
proof (cases opt)
  case (GradientDescentOptimizer stepsize)
  with assms show ?thesis
    by (auto dest!: return_new_value)
next
  case (MomentumOptimizer stepsize momentum acc)
  with assms show ?thesis
    by (auto simp: Let_def nth_append split: sum.splits dest!: return_new_value)
next
  case (NesterovMomentumOptimizer stepsize momentum acc)
  with assms show ?thesis
    by (auto simp: Let_def nth_append split: sum.splits dest!: return_new_value)
next
  case (AdagradOptimizer stepsize acc)
  with assms show ?thesis
    by (auto simp: Let_def nth_append adagrad_accumulation_def
        split: sum.splits option.splits dest!: return_new_value)
next
  case (RMSPropOptimizer stepsize decay acc)
  with assms show ?thesis
    by (auto simp: Let_def nth_append split: sum.splits dest!: return_new_value)
next
  case (AdamOptimizer stepsize beta1 beta2 fm sm t)
  with assms show ?thesis
    by (auto simp: Let_def nth_append adam_firstmoment_def map_option_nth_append
        split: sum.splits option.splits prod.splits dest!: return_new_value)
qed

lemma step_store_refines:
  assumes "step_store autograd_grad st opt objective_fn x grad_fn = (st', opt', r)"
    and "set_optimizer opt \<subseteq> {..<length st}" "x < length st" "x \<notin> set_optimizer opt"
  shows "step autograd_grad (map_optimizer ((!) st) opt) objective_fn (st ! x) grad_fn =
           (map_optimizer ((!) st') opt', map_sum id ((!) st') r)"
proof (cases "compute_grad autograd_grad (map_optimizer ((!) st) opt) objective_fn (st ! x) grad_fn")
  case (Inl e)
  with assms(1) show ?thesis
    by (auto simp: step_store_def step_def compute_grad_store_def)
next
  case (Inr gv)
  let ?st1 = "st @ [gv]"
  have opt1: "map_optimizer ((!) ?st1) opt = map_optimizer ((!) st) opt"
    using assms(2) by (rule map_optimizer_nth_append)
  have fresh: "length st \<notin> set_optimizer opt" using assms(2) by auto
  show ?thesis
  proof (cases "length (shape (st ! x)) > 1")
    case False
    with assms(1) Inr have "apply_grad_store ?st1 opt (length st) x = (st', opt', r)"
      by (simp add: step_store_def compute_grad_store_def)
    moreover have "set_optimizer opt \<subseteq> {..<length ?st1}" using assms(2) by auto
    moreover have "length st < length ?st1" "x < length ?st1" using assms(3) by simp_all
    ultimately
    have "apply_grad (map_optimizer ((!) ?st1) opt) (?st1 ! length st) (?st1 ! x) =
        (map_optimizer ((!) st') opt', map_sum id ((!) st') r)"
      using fresh assms(4) by (intro apply_grad_store_refines)
    with False Inr opt1 assms(3) show ?thesis
      by (simp add: step_def nth_append del: apply_grad.simps)
  next
    case True
    show ?thesis
    proof (cases "reshape gv (shape (st ! x))")
      case (Inl e)
      with assms(1) True \<open>compute_grad _ _ _ _ _ = Inr gv\<close> opt1 show ?thesis
        by (auto simp: step_store_def step_def compute_grad_store_def)
    next
      case (Inr v)
      let ?st2 = "?st1 @ [v]"
      have opt2: "map_optimizer ((!) ?st2) opt = map_optimizer ((!) st) opt"
        using assms(2) map_optimizer_nth_append[of opt st "[gv, v]"] by simp
      have fresh2: "Suc (length st) \<notin> set_optimizer opt" using assms(2) by auto
      from assms(1) True Inr \<open>compute_grad _ _ _ _ _ = Inr gv\<close>
      have "apply_grad_store ?st2 opt (length ?st1) x = (st', opt', r)"
        by (simp add: step_store_def compute_grad_store_def)
      moreover have "set_optimizer opt \<subseteq> {..<length ?st2}" using assms(2) by auto
      moreover have "length ?st1 < length ?st2" "x < length ?st2" using assms(3) by simp_all
      moreover have "length ?st1 \<notin> set_optimizer opt" using fresh2 by simp
      ultimately
      have "apply_grad (map_optimizer ((!) ?st2) opt) (?st2 ! length ?st1) (?st2 ! x) =
          (map_optimizer ((!) st') opt', map_sum id ((!) st') r)"
        using assms(4) by (intro apply_grad_store_refines)
      with True Inr \<open>compute_grad _ _ _ _ _ = Inr gv\<close> opt2 assms(3) show ?thesis
        by (simp add: step_def nth_append del: apply_grad.simps)
    qed
  qed
qed

section \<open>One step on arrays of finite numbers\<close>

text \<open>When the gradient computation returns a finite array in the shape of the point,
  or flattened for a point of more than one dimension, \<^verbatim>\<open>step\<close> applies the update
  to that gradient in the shape of the point.\<close>

lemma step_array_of:
  assumes "compute_grad autograd_grad opt objective_fn (array_of s x) grad_fn =
             Inr (array_of gs g)"
    and "gs = s \<or> (length s > 1 \<and> prod_list gs = prod_list s)"
  shows "step autograd_grad opt objective_fn (array_of s x) grad_fn =
           apply_grad opt (array_of s g) (array_of s x)"
proof -
  have "(if length s > 1 then reshape (array_of gs g) s else Inr (array_of gs g))
      = Inr (array_of s g)"
    using assms(2) by (auto simp: reshape_array_of)
  with assms(1) show ?thesis
    by (simp add: step_def del: apply_grad.simps)
qed

lemma momentum_apply_first:
  "apply_grad (MomentumOptimizer stepsize momentum None) (array_of s g) (array_of s x) =
     (MomentumOptimizer stepsize momentum (Some (array_of s (\<lambda>i. stepsize * g i))),
      Inr (array_of s (\<lambda>i. x i - stepsize * g i)))"
  by (simp add: momentum_accumulation_def)

lemma momentum_apply_later:
  "apply_grad (MomentumOptimizer stepsize momentum (Some (array_of s a)))
        (array_of s g) (array_of s x) =
     (MomentumOptimizer stepsize momentum
        (Some (array_of s (\<lambda>i. momentum * a i + stepsize * g i))),
      Inr (array_of s (\<lambda>i. x i - (momentum * a i + stepsize * g i))))"
  by (simp add: momentum_accumulation_def)

lemma nesterov_apply_first:
  "apply_grad (NesterovMomentumOptimizer stepsize momentum None) (array_of s g) (array_of s x) =
     (NesterovMomentumOptimizer stepsize momentum (Some (array_of s (\<lambda>i. stepsize * g i))),
      Inr (array_of s (\<lambda>i. x i - stepsize * g i)))"
  by (simp add: momentum_accumulation_def)

lemma adagrad_apply_first:
  "apply_grad (AdagradOptimizer stepsize None) (array_of s g) (array_of s x) =
     (AdagradOptimizer stepsize (Some (array_of s (\<lambda>i. g i * g i))),
      Inr (array_of s (\<lambda>i. x i - stepsize / sqrt (g i * g i + 1 / 10 ^ 8) * g i)))"
  using scaled_descent_array_of[of s "\<lambda>i. g i * g i" stepsize g x]
  by (simp add: adagrad_accumulation_def)

lemma rmsprop_apply_first:
  assumes "decay \<le> 1"
  shows "apply_grad (RMSPropOptimizer stepsize decay None) (array_of s g) (array_of s x) =
     (RMSPropOptimizer stepsize decay (Some (array_of s (\<lambda>i. (1 - decay) * (g i * g i)))),
      Inr (array_of s (\<lambda>i. x i - stepsize / sqrt ((1 - decay) * (g i * g i) + 1 / 10 ^ 8) * g i)))"
proof -
  have "0 \<le> (1 - decay) * (g i * g i)" for i
    using assms by simp
  then show ?thesis
    using scaled_descent_array_of[of s "\<lambda>i. (1 - decay) * (g i * g i)" stepsize g x]
    by (simp add: rmsprop_accumulation_def)
qed

lemma rmsprop_apply_later:
  assumes "\<forall>i<prod_list s. 0 \<le> a i" "0 \<le> decay" "decay \<le> 1"
  shows "apply_grad (RMSPropOptimizer stepsize decay (Some (array_of s a)))
        (array_of s g) (array_of s x) =
     (RMSPropOptimizer stepsize decay
        (Some (array_of s (\<lambda>i. decay * a i + (1 - decay) * (g i * g i)))),
      Inr (array_of s (\<lambda>i. x i -
         stepsize / sqrt (decay * a i + (1 - decay) * (g i * g i) + 1 / 10 ^ 8) * g i)))"
proof -
  have "0 \<le> decay * a i + (1 - decay) * (g i * g i)" if "i < prod_list s" for i
  proof -
    have "0 \<le> decay * a i" using assms(1,2) that by simp
    moreover have "0 \<le> (1 - decay) * (g i * g i)" using assms(3) by simp
    ultimately show ?thesis by simp
  qed
  then show ?thesis
    using scaled_descent_array_of[of s "\<lambda>i. decay * a i + (1 - decay) * (g i * g i)" stepsize g x]
    by (simp add: rmsprop_accumulation_def)
qed

lemma adam_apply_first:
  assumes "beta1 \<noteq> 1" "beta2 \<le> 1"
  shows "apply_grad (AdamOptimizer stepsize beta1 beta2 None None 0)
      (array_of s g) (array_of s x) =
     (AdamOptimizer stepsize beta1 beta2
        (Some (array_of s g)) (Some (array_of s (\<lambda>i. g i * g i))) 1,
      Inr (array_of s (\<lambda>i. x i -
        stepsize * sqrt (1 - beta2) / (1 - beta1) * g i / (sqrt (g i * g i) + 1 / 10 ^ 8))))"
proof -
  have "adapted_stepsize stepsize beta1 beta2 (Suc 0) =
      Finite (stepsize * sqrt (1 - beta2) / (1 - beta1))"
    using assms by (simp add: adapted_stepsize_def)
  then show ?thesis
    using adam_descent_array_of[of s "\<lambda>i. g i * g i" _ g x]
    by (simp add: adam_firstmoment_def adam_secondmoment_def)
qed

lemma nesterov_apply_later:
  "apply_grad (NesterovMomentumOptimizer stepsize momentum (Some (array_of s a)))
        (array_of s g) (array_of s x) =
     (NesterovMomentumOptimizer stepsize momentum
        (Some (array_of s (\<lambda>i. momentum * a i + stepsize * g i))),
      Inr (array_of s (\<lambda>i. x i - (momentum * a i + stepsize * g i))))"
  by (simp add: momentum_accumulation_def)

section \<open>The claims\<close>

subsection \<open>C1: a gradient that is zero everywhere\<close>

text \<open>
  Claim C1 says that a step with an all-zero gradient and no accumulated history leaves
  \<open>x\<close> unchanged only for the base, Momentum and Nesterov variants, and that Adagrad,
  RMSProp and Adam take a nonzero step. The code does not: Adagrad and RMSProp multiply
  \<open>stepsize / sqrt (0 + 1e-8)\<close> by the zero gradient, Adam divides a zero first moment
  by \<open>sqrt 0 + 1e-8\<close>, and all three return \<open>x\<close>. Here the engine differentiates a
  constant objective at the point \<open>[1, 2]\<close>.
\<close>

theorem zero_gradient_adaptive_counterexample:
  "snd (step autograd_constant (init_AdagradOptimizer (1 / 100)) ()
          \<lparr>shape = [2], data = [Finite 1, Finite 2]\<rparr> None)
     = Inr \<lparr>shape = [2], data = [Finite 1, Finite 2]\<rparr>
   \<and> snd (step autograd_constant (init_RMSPropOptimizer (1 / 100) (9 / 10)) ()
          \<lparr>shape = [2], data = [Finite 1, Finite 2]\<rparr> None)
     = Inr \<lparr>shape = [2], data = [Finite 1, Finite 2]\<rparr>
   \<and> snd (step autograd_constant (init_AdamOptimizer (1 / 100) (9 / 10) (99 / 100)) ()
          \<lparr>shape = [2], data = [Finite 1, Finite 2]\<rparr> None)
     = Inr \<lparr>shape = [2], data = [Finite 1, Finite 2]\<rparr>"
  by (simp add: step_def call_grad_def autograd_constant_def zero_grad_fn_def
      init_AdagradOptimizer_def init_RMSPropOptimizer_def init_AdamOptimizer_def
      adagrad_accumulation_def rmsprop_accumulation_def adam_firstmoment_def
      adam_secondmoment_def adapted_stepsize_def adam_descent_def scaled_descent_def
      np_mul_def np_sub_def np_div_def np_binop_same_shape well_formed_def
      add_scalar_def np_sqrt_def scalar_div_def scalar_mul_def eps_def Let_def)

text \<open>
  Claim C1, amended: for every variant, a step of a just-constructed optimizer (for
  Adam: with \<open>beta1 \<noteq> 1\<close> and \<open>beta2 \<le> 1\<close>) on a gradient that is zero everywhere
  returns \<open>x\<close> unchanged. The gradient has the shape of \<open>x\<close>, or is flattened when \<open>x\<close>
  has more than one dimension. The epsilon \<open>1e-8\<close> is applied exactly: on any finite
  gradient \<open>g\<close> that first step returns, element by element,
  \<open>x - stepsize / sqrt (g * g + 1e-8) * g\<close> for Adagrad,
  \<open>x - stepsize / sqrt ((1 - decay) * (g * g) + 1e-8) * g\<close> for RMSProp with
  \<open>decay \<le> 1\<close>, and
  \<open>x - stepsize * sqrt (1 - beta2) / (1 - beta1) * g / (sqrt (g * g) + 1e-8)\<close> for Adam.
  So where \<open>g\<close> is 0 the division is by \<open>sqrt (0 + 1e-8)\<close>, for Adam by
  \<open>sqrt 0 + 1e-8\<close>, which is not zero, and that element of \<open>x\<close> is unchanged.
\<close>

theorem zero_gradient_step:
  assumes "opt = just_constructed opt"
    and "\<forall>stepsize beta1 beta2 fm sm t.
           opt = AdamOptimizer stepsize beta1 beta2 fm sm t \<longrightarrow> beta1 \<noteq> 1 \<and> beta2 \<le> 1"
    and "compute_grad autograd_grad opt objective_fn (array_of s x) grad_fn =
           Inr (array_of gs g)"
    and "gs = s \<or> (length s > 1 \<and> prod_list gs = prod_list s)"
  shows "((\<forall>i<prod_list s. g i = 0) \<longrightarrow>
           snd (step autograd_grad opt objective_fn (array_of s x) grad_fn) = Inr (array_of s x))
     \<and> (\<forall>stepsize. opt = AdagradOptimizer stepsize None \<longrightarrow>
           snd (step autograd_grad opt objective_fn (array_of s x) grad_fn) =
             Inr (array_of s (\<lambda>i. x i - stepsize / sqrt (g i * g i + 1 / 10 ^ 8) * g i)))
     \<and> (\<forall>stepsize decay. opt = RMSPropOptimizer stepsize decay None \<and> decay \<le> 1 \<longrightarrow>
           snd (step autograd_grad opt objective_fn (array_of s x) grad_fn) =
             Inr (array_of s (\<lambda>i. x i -
                stepsize / sqrt ((1 - decay) * (g i * g i) + 1 / 10 ^ 8) * g i)))
     \<and> (\<forall>stepsize beta1 beta2. opt = AdamOptimizer stepsize beta1 beta2 None None 0 \<longrightarrow>
           snd (step autograd_grad opt objective_fn (array_of s x) grad_fn) =
             Inr (array_of s (\<lambda>i. x i -
                stepsize * sqrt (1 - beta2) / (1 - beta1) * g i
                  / (sqrt (g i * g i) + 1 / 10 ^ 8))))"
proof -
  note st = step_array_of[OF assms(3,4)]
  have zero: "snd (step autograd_grad opt objective_fn (array_of s x) grad_fn) =
      Inr (array_of s x)" if "\<forall>i<prod_list s. g i = 0"
  proof -
    from that have "array_of s g = array_of s (\<lambda>i. 0)"
      by (intro array_of_cong) simp
    with st zero_gradient_apply[OF assms(1,2), of s x] show ?thesis
      by simp
  qed
  have ada: "snd (step autograd_grad opt objective_fn (array_of s x) grad_fn) =
      Inr (array_of s (\<lambda>i. x i - stepsize / sqrt (g i * g i + 1 / 10 ^ 8) * g i))"
    if "opt = AdagradOptimizer stepsize None" for stepsize
    unfolding st unfolding that adagrad_apply_first by simp
  have rms: "snd (step autograd_grad opt objective_fn (array_of s x) grad_fn) =
      Inr (array_of s (\<lambda>i. x i -
         stepsize / sqrt ((1 - decay) * (g i * g i) + 1 / 10 ^ 8) * g i))"
    if "opt = RMSPropOptimizer stepsize decay None" "decay \<le> 1" for stepsize decay
    unfolding st unfolding that(1) rmsprop_apply_first[OF that(2)] by simp
  have adam: "snd (step autograd_grad opt objective_fn (array_of s x) grad_fn) =
      Inr (array_of s (\<lambda>i. x i -
         stepsize * sqrt (1 - beta2) / (1 - beta1) * g i / (sqrt (g i * g i) + 1 / 10 ^ 8)))"
    if "opt = AdamOptimizer stepsize beta1 beta2 None None 0" for stepsize beta1 beta2
  proof -
    from assms(2) that have "beta1 \<noteq> 1" "beta2 \<le> 1" by simp_all
    from adam_apply_first[OF this] show ?thesis
      unfolding st unfolding that by simp
  qed
  from zero ada rms adam show ?thesis
    by blast
qed

text \<open>Adam on a \<open>2 \<times> 2\<close> point, with an engine that returns the zero gradient
  flattened.\<close>

theorem zero_gradient_step_witness:
  "snd (step (\<lambda>(f::unit) p. Inr (array_of [4] (\<lambda>i. 0)))
          (init_AdamOptimizer (1 / 100) (9 / 10) (99 / 100)) ()
          (array_of [2, 2] (\<lambda>i. 1)) None)
     = Inr (array_of [2, 2] (\<lambda>i. 1))"
  using zero_gradient_step [where opt = "init_AdamOptimizer (1 / 100) (9 / 10) (99 / 100)"
      and s = "[2, 2]" and gs = "[4]" and x = "\<lambda>i. 1" and g = "\<lambda>i. 0" and grad_fn = None
      and autograd_grad = "\<lambda>(f::unit) p. Inr (array_of [4] (\<lambda>i. 0))" and objective_fn = "()"]
  by (simp add: init_AdamOptimizer_def call_grad_def)

subsection \<open>C2: \<^verbatim>\<open>reset\<close>\<close>

text \<open>
  Claim C2: for every variant with memory (Momentum, Nesterov, Adagrad, RMSProp, Adam),
  \<^verbatim>\<open>reset\<close> returns the optimizer to its just-constructed state: the accumulated state
  is unset and Adam's \<open>t\<close> is 0, and the hyperparameters are as they were; so a step
  after \<^verbatim>\<open>reset\<close> gives what the same step gives on a newly constructed optimizer
  with these hyperparameters.
\<close>

theorem reset_like_new:
  assumes "has_memory opt"
  shows "\<exists>opt'. reset opt = Inr opt' \<and> opt' = just_constructed opt
           \<and> hyperparameters opt' = hyperparameters opt
           \<and> set (fst (accumulated_state opt')) \<subseteq> {None} \<and> snd (accumulated_state opt') = 0
           \<and> step autograd_grad opt' objective_fn x grad_fn =
               step autograd_grad (just_constructed opt) objective_fn x grad_fn"
  using assms
  by (cases opt)
     (simp_all add: init_MomentumOptimizer_def init_NesterovMomentumOptimizer_def
        init_AdagradOptimizer_def init_RMSPropOptimizer_def init_AdamOptimizer_def)

theorem reset_like_new_witness:
  "has_memory (AdamOptimizer (1 / 100) (9 / 10) (99 / 100)
                 (Some (array_of [2] (\<lambda>i. 1))) (Some (array_of [2] (\<lambda>i. 1))) 3)
   \<and> reset (AdamOptimizer (1 / 100) (9 / 10) (99 / 100)
                 (Some (array_of [2] (\<lambda>i. 1))) (Some (array_of [2] (\<lambda>i. 1))) 3)
       = Inr (init_AdamOptimizer (1 / 100) (9 / 10) (99 / 100))"
  using reset_like_new [where opt = "AdamOptimizer (1 / 100) (9 / 10) (99 / 100)
                 (Some (array_of [2] (\<lambda>i. 1))) (Some (array_of [2] (\<lambda>i. 1))) 3"]
  by (simp add: init_AdamOptimizer_def)

subsection \<open>C3: Adam\<close>



subsection \<open>C4: where Nesterov takes the gradient\<close>

text \<open>
  Claim C4: a \<^verbatim>\<open>step\<close> call of the Nesterov variant takes the gradient, through the
  supplied \<^verbatim>\<open>grad_fn\<close> or through automatic differentiation, at \<open>x\<close> itself on the first
  call, when the accumulation is unset, and at \<open>x - momentum * accumulation\<close> on every
  later call: the first call sets the accumulation, to \<open>stepsize * g\<close>, a set
  accumulation stays set, and the second call takes its gradient at
  \<open>x - momentum * (stepsize * g)\<close>. The update applied to that gradient is the Momentum
  variant's: the same returned point, accumulated state and hyperparameters.
\<close>

theorem nesterov_gradient_point:
  assumes "call_grad autograd_grad objective_fn grad_fn1 (array_of s x1) = Inr (array_of gs g1)"
    and "gs = s \<or> (length s > 1 \<and> prod_list gs = prod_list s)"
  shows "step autograd_grad (NesterovMomentumOptimizer stepsize momentum None)
           objective_fn x grad_fn =
       (case call_grad autograd_grad objective_fn grad_fn x of
          Inl e \<Rightarrow> (NesterovMomentumOptimizer stepsize momentum None, Inl e)
        | Inr g \<Rightarrow>
            (case (if length (shape x) > 1 then reshape g (shape x) else Inr g) of
               Inl e \<Rightarrow> (NesterovMomentumOptimizer stepsize momentum None, Inl e)
             | Inr g' \<Rightarrow> apply_grad (NesterovMomentumOptimizer stepsize momentum None) g' x))
   \<and> step autograd_grad (NesterovMomentumOptimizer stepsize momentum (Some (array_of s a)))
           objective_fn (array_of s xf) grad_fn =
       (case call_grad autograd_grad objective_fn grad_fn
               (array_of s (\<lambda>i. xf i - momentum * a i)) of
          Inl e \<Rightarrow> (NesterovMomentumOptimizer stepsize momentum (Some (array_of s a)), Inl e)
        | Inr g \<Rightarrow>
            (case (if length s > 1 then reshape g s else Inr g) of
               Inl e \<Rightarrow> (NesterovMomentumOptimizer stepsize momentum (Some (array_of s a)), Inl e)
             | Inr g' \<Rightarrow>
                 apply_grad (NesterovMomentumOptimizer stepsize momentum (Some (array_of s a)))
                   g' (array_of s xf)))
   \<and> step autograd_grad (NesterovMomentumOptimizer stepsize momentum None)
           objective_fn (array_of s x1) grad_fn1 =
       (NesterovMomentumOptimizer stepsize momentum (Some (array_of s (\<lambda>i. stepsize * g1 i))),
        Inr (array_of s (\<lambda>i. x1 i - stepsize * g1 i)))
   \<and> step autograd_grad
        (fst (step autograd_grad (NesterovMomentumOptimizer stepsize momentum None)
                objective_fn (array_of s x1) grad_fn1))
        objective_fn (array_of s x2) grad_fn2 =
       (case call_grad autograd_grad objective_fn grad_fn2
               (array_of s (\<lambda>i. x2 i - momentum * (stepsize * g1 i))) of
          Inl e \<Rightarrow>
            (NesterovMomentumOptimizer stepsize momentum
               (Some (array_of s (\<lambda>i. stepsize * g1 i))), Inl e)
        | Inr g \<Rightarrow>
            (case (if length s > 1 then reshape g s else Inr g) of
               Inl e \<Rightarrow>
                 (NesterovMomentumOptimizer stepsize momentum
                    (Some (array_of s (\<lambda>i. stepsize * g1 i))), Inl e)
             | Inr g' \<Rightarrow>
                 apply_grad (NesterovMomentumOptimizer stepsize momentum
                    (Some (array_of s (\<lambda>i. stepsize * g1 i)))) g' (array_of s x2)))
   \<and> (\<exists>a'. fst (step autograd_grad (NesterovMomentumOptimizer stepsize momentum (Some a0))
                 objective_fn x grad_fn) = NesterovMomentumOptimizer stepsize momentum (Some a'))
   \<and> snd (step autograd_grad (NesterovMomentumOptimizer stepsize momentum None)
            objective_fn x grad_fn)
     = snd (step autograd_grad (MomentumOptimizer stepsize momentum None) objective_fn x grad_fn)
   \<and> compute_grad autograd_grad (NesterovMomentumOptimizer stepsize momentum None)
       objective_fn x grad_fn
     = call_grad autograd_grad objective_fn grad_fn x
   \<and> compute_grad autograd_grad
       (NesterovMomentumOptimizer stepsize momentum (Some (array_of s a)))
       objective_fn (array_of s xf) grad_fn
     = call_grad autograd_grad objective_fn grad_fn (array_of s (\<lambda>i. xf i - momentum * a i))
   \<and> call_grad autograd_grad objective_fn (Some gf) p = gf p
   \<and> call_grad autograd_grad objective_fn None p = autograd_grad objective_fn p
   \<and> snd (apply_grad (NesterovMomentumOptimizer stepsize momentum acc) grad xa)
     = snd (apply_grad (MomentumOptimizer stepsize momentum acc) grad xa)
   \<and> accumulated_state (fst (apply_grad (NesterovMomentumOptimizer stepsize momentum acc) grad xa))
     = accumulated_state (fst (apply_grad (MomentumOptimizer stepsize momentum acc) grad xa))
   \<and> hyperparameters (fst (apply_grad (NesterovMomentumOptimizer stepsize momentum acc) grad xa))
     = hyperparameters (fst (apply_grad (MomentumOptimizer stepsize momentum acc) grad xa))"
proof -
  have cg_unset: "compute_grad autograd_grad (NesterovMomentumOptimizer stepsize momentum None)
       objective_fn x grad_fn = call_grad autograd_grad objective_fn grad_fn x"
    by (simp add: shifted_x_def)
  have "shifted_x momentum (Some (array_of s a)) (array_of s xf) =
      Inr (array_of s (\<lambda>i. xf i - momentum * a i))"
    by (simp add: shifted_x_def)
  then have cg_shifted: "compute_grad autograd_grad
       (NesterovMomentumOptimizer stepsize momentum (Some (array_of s a)))
       objective_fn (array_of s xf) grad_fn
     = call_grad autograd_grad objective_fn grad_fn (array_of s (\<lambda>i. xf i - momentum * a i))"
    by simp
  have supplied: "call_grad autograd_grad objective_fn (Some gf) p = gf p"
    and engine: "call_grad autograd_grad objective_fn None p = autograd_grad objective_fn p"
    by (simp_all add: call_grad_def)
  have point: "snd (apply_grad (NesterovMomentumOptimizer stepsize momentum acc) grad xa)
     = snd (apply_grad (MomentumOptimizer stepsize momentum acc) grad xa)"
    and state: "accumulated_state
        (fst (apply_grad (NesterovMomentumOptimizer stepsize momentum acc) grad xa))
     = accumulated_state (fst (apply_grad (MomentumOptimizer stepsize momentum acc) grad xa))"
    and hyper: "hyperparameters
        (fst (apply_grad (NesterovMomentumOptimizer stepsize momentum acc) grad xa))
     = hyperparameters (fst (apply_grad (MomentumOptimizer stepsize momentum acc) grad xa))"
    by (simp_all split: sum.splits)
  have unset: "step autograd_grad (NesterovMomentumOptimizer stepsize momentum None)
           objective_fn x grad_fn =
       (case call_grad autograd_grad objective_fn grad_fn x of
          Inl e \<Rightarrow> (NesterovMomentumOptimizer stepsize momentum None, Inl e)
        | Inr g \<Rightarrow>
            (case (if length (shape x) > 1 then reshape g (shape x) else Inr g) of
               Inl e \<Rightarrow> (NesterovMomentumOptimizer stepsize momentum None, Inl e)
             | Inr g' \<Rightarrow> apply_grad (NesterovMomentumOptimizer stepsize momentum None) g' x))"
    by (simp add: step_def shifted_x_def Let_def del: apply_grad.simps)
  have shifted: "step autograd_grad
           (NesterovMomentumOptimizer stepsize momentum (Some (array_of s a)))
           objective_fn (array_of s xf) grad_fn =
       (case call_grad autograd_grad objective_fn grad_fn
               (array_of s (\<lambda>i. xf i - momentum * a i)) of
          Inl e \<Rightarrow> (NesterovMomentumOptimizer stepsize momentum (Some (array_of s a)), Inl e)
        | Inr g \<Rightarrow>
            (case (if length s > 1 then reshape g s else Inr g) of
               Inl e \<Rightarrow> (NesterovMomentumOptimizer stepsize momentum (Some (array_of s a)), Inl e)
             | Inr g' \<Rightarrow>
                 apply_grad (NesterovMomentumOptimizer stepsize momentum (Some (array_of s a)))
                   g' (array_of s xf)))"
    for a xf grad_fn
    by (simp add: step_def shifted_x_def Let_def del: apply_grad.simps)
  have cg: "compute_grad autograd_grad (NesterovMomentumOptimizer stepsize momentum None)
      objective_fn (array_of s x1) grad_fn1 = Inr (array_of gs g1)"
    using assms(1) by (simp add: shifted_x_def)
  have first: "step autograd_grad (NesterovMomentumOptimizer stepsize momentum None)
           objective_fn (array_of s x1) grad_fn1 =
       (NesterovMomentumOptimizer stepsize momentum (Some (array_of s (\<lambda>i. stepsize * g1 i))),
        Inr (array_of s (\<lambda>i. x1 i - stepsize * g1 i)))"
    unfolding step_array_of[OF cg assms(2)] by (rule nesterov_apply_first)
  have second: "step autograd_grad
        (fst (step autograd_grad (NesterovMomentumOptimizer stepsize momentum None)
                objective_fn (array_of s x1) grad_fn1))
        objective_fn (array_of s x2) grad_fn2 =
       (case call_grad autograd_grad objective_fn grad_fn2
               (array_of s (\<lambda>i. x2 i - momentum * (stepsize * g1 i))) of
          Inl e \<Rightarrow>
            (NesterovMomentumOptimizer stepsize momentum
               (Some (array_of s (\<lambda>i. stepsize * g1 i))), Inl e)
        | Inr g \<Rightarrow>
            (case (if length s > 1 then reshape g s else Inr g) of
               Inl e \<Rightarrow>
                 (NesterovMomentumOptimizer stepsize momentum
                    (Some (array_of s (\<lambda>i. stepsize * g1 i))), Inl e)
             | Inr g' \<Rightarrow>
                 apply_grad (NesterovMomentumOptimizer stepsize momentum
                    (Some (array_of s (\<lambda>i. stepsize * g1 i)))) g' (array_of s x2)))"
    unfolding first fst_conv by (rule shifted)
  have stays: "\<exists>a'. fst (step autograd_grad
        (NesterovMomentumOptimizer stepsize momentum (Some a0)) objective_fn x grad_fn) =
      NesterovMomentumOptimizer stepsize momentum (Some a')"
    by (auto simp: step_def Let_def split: sum.splits)
  have same: "snd (step autograd_grad (NesterovMomentumOptimizer stepsize momentum None)
            objective_fn x grad_fn)
     = snd (step autograd_grad (MomentumOptimizer stepsize momentum None) objective_fn x grad_fn)"
    by (simp add: step_def shifted_x_def Let_def split: sum.splits)
  from unset shifted first second stays same
    cg_unset cg_shifted supplied engine point state hyper
  show ?thesis
    by (intro conjI)
qed

text \<open>A step with the identity as \<^verbatim>\<open>grad_fn\<close>: the gradient is the point it was taken
  at, \<open>5 - 9/10 * 2\<close> in each element, and the update is applied to it at \<open>x = 5\<close>.\<close>

theorem nesterov_gradient_point_witness:
  "step (\<lambda>(f::unit) p. Inl (GradientFailure ''unused''))
       (NesterovMomentumOptimizer (1 / 100) (9 / 10) (Some (array_of [3] (\<lambda>i. 2))))
       () (array_of [3] (\<lambda>i. 5)) (Some Inr)
     = (NesterovMomentumOptimizer (1 / 100) (9 / 10)
          (Some (array_of [3] (\<lambda>i. 9 / 10 * 2 + 1 / 100 * (5 - 9 / 10 * 2)))),
        Inr (array_of [3] (\<lambda>i. 5 - (9 / 10 * 2 + 1 / 100 * (5 - 9 / 10 * 2)))))"
proof -
  have h: "call_grad (\<lambda>(f::unit) p. Inl (GradientFailure ''unused'')) () (Some Inr)
        (array_of [3] (\<lambda>i. 5)) = Inr (array_of [3] (\<lambda>i. 5))"
    "[3] = [3] \<or> (length [3::nat] > 1 \<and> prod_list [3] = prod_list [3::nat])"
    by (simp_all add: call_grad_def)
  have taken: "call_grad (\<lambda>(f::unit) p. Inl (GradientFailure ''unused'')) () (Some Inr)
        (array_of [3] (\<lambda>i. 5 - 9 / 10 * 2)) = Inr (array_of [3] (\<lambda>i. 5 - 9 / 10 * 2))"
    by (simp add: call_grad_def)
  have update: "apply_grad
        (NesterovMomentumOptimizer (1 / 100) (9 / 10) (Some (array_of [3] (\<lambda>i. 2))))
        (array_of [3] (\<lambda>i. 5 - 9 / 10 * 2)) (array_of [3] (\<lambda>i. 5)) =
      (NesterovMomentumOptimizer (1 / 100) (9 / 10)
          (Some (array_of [3] (\<lambda>i. 9 / 10 * 2 + 1 / 100 * (5 - 9 / 10 * 2)))),
        Inr (array_of [3] (\<lambda>i. 5 - (9 / 10 * 2 + 1 / 100 * (5 - 9 / 10 * 2)))))"
    by (rule nesterov_apply_later)
  note at_point = nesterov_gradient_point [where stepsize = "1 / 100" and momentum = "9 / 10"
        and a = "\<lambda>i. 2" and xf = "\<lambda>i. 5" and grad_fn = "Some Inr",
      OF h, THEN conjunct2, THEN conjunct1]
  show ?thesis
    unfolding at_point taken using update by simp
qed

subsection \<open>C5: Momentum\<close>

text \<open>
  Claim C5: the first \<^verbatim>\<open>step\<close> call of the Momentum variant with gradient \<open>g\<close> sets
  \<open>accumulation = stepsize * g\<close> and returns \<open>x - stepsize * g\<close>, which is what a step
  of the base variant returns; every later \<^verbatim>\<open>step\<close> call sets
  \<open>accumulation = momentum * accumulation + stepsize * g\<close> and returns
  \<open>x - accumulation\<close>, and the call after the first is such a later call, on the
  accumulation \<open>stepsize * g\<close> the first call set. The gradient is what the gradient
  computation returns at \<open>x\<close>, in the shape of \<open>x\<close> or flattened.
\<close>

theorem momentum_update:
  assumes "call_grad autograd_grad objective_fn grad_fn (array_of s x) = Inr (array_of gs g)"
    and "gs = s \<or> (length s > 1 \<and> prod_list gs = prod_list s)"
    and "call_grad autograd_grad objective_fn grad_fn2 (array_of s x2) = Inr (array_of gs2 g2)"
    and "gs2 = s \<or> (length s > 1 \<and> prod_list gs2 = prod_list s)"
  shows "step autograd_grad (MomentumOptimizer stepsize momentum None) objective_fn
           (array_of s x) grad_fn =
     (MomentumOptimizer stepsize momentum (Some (array_of s (\<lambda>i. stepsize * g i))),
      Inr (array_of s (\<lambda>i. x i - stepsize * g i)))
   \<and> snd (step autograd_grad (MomentumOptimizer stepsize momentum None) objective_fn xa gfa) =
     snd (step autograd_grad (GradientDescentOptimizer stepsize) objective_fn xa gfa)
   \<and> step autograd_grad (MomentumOptimizer stepsize momentum (Some (array_of s a))) objective_fn
           (array_of s x) grad_fn =
     (MomentumOptimizer stepsize momentum
        (Some (array_of s (\<lambda>i. momentum * a i + stepsize * g i))),
      Inr (array_of s (\<lambda>i. x i - (momentum * a i + stepsize * g i))))
   \<and> step autograd_grad
        (fst (step autograd_grad (MomentumOptimizer stepsize momentum None) objective_fn
                (array_of s x) grad_fn))
        objective_fn (array_of s x2) grad_fn2 =
     (MomentumOptimizer stepsize momentum
        (Some (array_of s (\<lambda>i. momentum * (stepsize * g i) + stepsize * g2 i))),
      Inr (array_of s (\<lambda>i. x2 i - (momentum * (stepsize * g i) + stepsize * g2 i))))
   \<and> apply_grad (MomentumOptimizer stepsize momentum None) (array_of s g) (array_of s x) =
     (MomentumOptimizer stepsize momentum (Some (array_of s (\<lambda>i. stepsize * g i))),
      Inr (array_of s (\<lambda>i. x i - stepsize * g i)))
   \<and> snd (apply_grad (MomentumOptimizer stepsize momentum None) grad xa) =
     snd (apply_grad (GradientDescentOptimizer stepsize) grad xa)
   \<and> apply_grad (MomentumOptimizer stepsize momentum (Some (array_of s a)))
        (array_of s g) (array_of s x) =
     (MomentumOptimizer stepsize momentum
        (Some (array_of s (\<lambda>i. momentum * a i + stepsize * g i))),
      Inr (array_of s (\<lambda>i. x i - (momentum * a i + stepsize * g i))))"
proof -
  have cg: "compute_grad autograd_grad (MomentumOptimizer stepsize momentum acc) objective_fn
      (array_of s x) grad_fn = Inr (array_of gs g)" for acc
    using assms(1) by simp
  have cg2: "compute_grad autograd_grad (MomentumOptimizer stepsize momentum acc) objective_fn
      (array_of s x2) grad_fn2 = Inr (array_of gs2 g2)" for acc
    using assms(3) by simp
  have first: "step autograd_grad (MomentumOptimizer stepsize momentum None) objective_fn
           (array_of s x) grad_fn =
     (MomentumOptimizer stepsize momentum (Some (array_of s (\<lambda>i. stepsize * g i))),
      Inr (array_of s (\<lambda>i. x i - stepsize * g i)))"
    unfolding step_array_of[OF cg assms(2)] by (rule momentum_apply_first)
  have later: "step autograd_grad (MomentumOptimizer stepsize momentum (Some (array_of s a)))
      objective_fn (array_of s x) grad_fn =
     (MomentumOptimizer stepsize momentum
        (Some (array_of s (\<lambda>i. momentum * a i + stepsize * g i))),
      Inr (array_of s (\<lambda>i. x i - (momentum * a i + stepsize * g i))))"
    unfolding step_array_of[OF cg assms(2)] by (rule momentum_apply_later)
  have second: "step autograd_grad
        (fst (step autograd_grad (MomentumOptimizer stepsize momentum None) objective_fn
                (array_of s x) grad_fn))
        objective_fn (array_of s x2) grad_fn2 =
     (MomentumOptimizer stepsize momentum
        (Some (array_of s (\<lambda>i. momentum * (stepsize * g i) + stepsize * g2 i))),
      Inr (array_of s (\<lambda>i. x2 i - (momentum * (stepsize * g i) + stepsize * g2 i))))"
    unfolding first fst_conv step_array_of[OF cg2 assms(4)] by (rule momentum_apply_later)
  have base_step: "snd (step autograd_grad (MomentumOptimizer stepsize momentum None)
        objective_fn xa gfa) =
     snd (step autograd_grad (GradientDescentOptimizer stepsize) objective_fn xa gfa)"
    by (simp add: step_def momentum_accumulation_def Let_def split: sum.splits)
  have base: "snd (apply_grad (MomentumOptimizer stepsize momentum None) grad xa) =
     snd (apply_grad (GradientDescentOptimizer stepsize) grad xa)"
    by (simp add: momentum_accumulation_def)
  from first base_step later second momentum_apply_first base momentum_apply_later
  show ?thesis
    by (intro conjI)
qed

text \<open>A step on an accumulation of 1 with gradient 2 at the point 5.\<close>

theorem momentum_update_witness:
  "step (\<lambda>(f::unit). Inr) (MomentumOptimizer (1 / 10) (9 / 10) (Some (array_of [2] (\<lambda>i. 1))))
        () (array_of [2] (\<lambda>i. 5)) (Some (\<lambda>p. Inr (array_of [2] (\<lambda>i. 2)))) =
     (MomentumOptimizer (1 / 10) (9 / 10)
        (Some (array_of [2] (\<lambda>i. 9 / 10 * 1 + 1 / 10 * 2))),
      Inr (array_of [2] (\<lambda>i. 5 - (9 / 10 * 1 + 1 / 10 * 2))))"
proof -
  have h: "call_grad (\<lambda>(f::unit). Inr) () (Some (\<lambda>p. Inr (array_of [2] (\<lambda>i. 2))))
        (array_of [2] (\<lambda>i. 5)) = Inr (array_of [2] (\<lambda>i. 2))"
    "[2] = [2] \<or> (length [2::nat] > 1 \<and> prod_list [2] = prod_list [2::nat])"
    "call_grad (\<lambda>(f::unit). Inr) () (Some (\<lambda>p. Inr (array_of [2] (\<lambda>i. 2))))
        (array_of [2] (\<lambda>i. 5)) = Inr (array_of [2] (\<lambda>i. 2))"
    "[2] = [2] \<or> (length [2::nat] > 1 \<and> prod_list [2] = prod_list [2::nat])"
    by (simp_all add: call_grad_def)
  show ?thesis
    by (rule momentum_update [where stepsize = "1 / 10" and momentum = "9 / 10"
            and a = "\<lambda>i. 1", OF h, THEN conjunct2, THEN conjunct2, THEN conjunct1])
qed

subsection \<open>C6: Adagrad\<close>

text \<open>
  Claim C6: after \<open>n \<ge> 1\<close> \<^verbatim>\<open>step\<close> calls of Adagrad, each with a gradient of the
  shape of the point, the accumulation is the elementwise sum of the squares of the
  \<open>n\<close> gradients seen: \<open>g * g\<close> on the first call, and \<open>g * g\<close> added on each later
  one. Each call returns, element by element,
  \<open>x - (stepsize / sqrt (accumulation + 1e-8)) * g\<close> for the updated accumulation.
  Minimizing \<open>f x = x\<^sup>2\<close> from \<open>x = 1\<close> with \<open>stepsize = 0.1\<close>, one step gives
  \<open>accumulation = 4\<close> and \<open>1 - (0.1 / sqrt (4 + 1e-8)) * 2\<close>, which is within \<open>0.0001\<close>
  of \<open>0.9\<close>.
\<close>

theorem adagrad_update:
  assumes "list_all2 (\<lambda>(x, grad_fn) g. shape x = s \<and>
             call_grad autograd_grad objective_fn grad_fn x = Inr (array_of s g)) calls gs"
    and "gs \<noteq> []"
    and "\<forall>i<prod_list s. 0 \<le> a i"
  shows "step_seq autograd_grad (AdagradOptimizer stepsize None) objective_fn calls =
           AdagradOptimizer stepsize (Some (array_of s (\<lambda>i. \<Sum>g\<leftarrow>gs. g i * g i)))
     \<and> apply_grad (AdagradOptimizer stepsize None) (array_of s g) (array_of s x) =
         (AdagradOptimizer stepsize (Some (array_of s (\<lambda>i. g i * g i))),
          Inr (array_of s (\<lambda>i. x i - stepsize / sqrt (g i * g i + 1 / 10 ^ 8) * g i)))
     \<and> apply_grad (AdagradOptimizer stepsize (Some (array_of s a))) (array_of s g) (array_of s x) =
         (AdagradOptimizer stepsize (Some (array_of s (\<lambda>i. a i + g i * g i))),
          Inr (array_of s (\<lambda>i. x i - stepsize / sqrt (a i + g i * g i + 1 / 10 ^ 8) * g i)))
     \<and> step autograd_grad (init_AdagradOptimizer (1 / 10)) objective_fn (array_of [] (\<lambda>i. 1))
           (Some (\<lambda>p. Inr (scalar_mul (Finite 2) p))) =
         (AdagradOptimizer (1 / 10) (Some (array_of [] (\<lambda>i. 4))),
          Inr (array_of [] (\<lambda>i. 1 - 1 / 10 / sqrt (4 + 1 / 10 ^ 8) * 2)))
     \<and> \<bar>1 - 1 / 10 / sqrt (4 + 1 / 10 ^ 8) * 2 - 9 / 10\<bar> < (1::real) / 10 ^ 4"
proof -
  have first: "apply_grad (AdagradOptimizer stepsize None) (array_of s g) (array_of s x) =
         (AdagradOptimizer stepsize (Some (array_of s (\<lambda>i. g i * g i))),
          Inr (array_of s (\<lambda>i. x i - stepsize / sqrt (g i * g i + 1 / 10 ^ 8) * g i)))"
    for stepsize s g x
    using scaled_descent_array_of[of s "\<lambda>i. g i * g i" stepsize g x]
    by (simp add: adagrad_accumulation_def)
  have later: "apply_grad (AdagradOptimizer stepsize (Some (array_of s a)))
         (array_of s g) (array_of s x) =
         (AdagradOptimizer stepsize (Some (array_of s (\<lambda>i. a i + g i * g i))),
          Inr (array_of s (\<lambda>i. x i - stepsize / sqrt (a i + g i * g i + 1 / 10 ^ 8) * g i)))"
    using scaled_descent_array_of[of s "\<lambda>i. a i + g i * g i" stepsize g x] assms(3)
    by (simp add: adagrad_accumulation_def)
  have example: "step autograd_grad (init_AdagradOptimizer (1 / 10)) objective_fn
           (array_of [] (\<lambda>i. 1)) (Some (\<lambda>p. Inr (scalar_mul (Finite 2) p))) =
         (AdagradOptimizer (1 / 10) (Some (array_of [] (\<lambda>i. 4))),
          Inr (array_of [] (\<lambda>i. 1 - 1 / 10 / sqrt (4 + 1 / 10 ^ 8) * 2)))"
    using first[of "1 / 10" "[]" "\<lambda>i. 2" "\<lambda>i. 1"]
    by (simp add: step_def call_grad_def init_AdagradOptimizer_def del: apply_grad.simps)
  show ?thesis
    using adagrad_step_seq[OF assms(1,2)] first later example adagrad_example_value
    by (intro conjI)
qed

text \<open>Two steps whose gradients are 1 and 2 in each element accumulate \<open>1 + 4\<close>.\<close>

theorem adagrad_update_witness:
  "step_seq (\<lambda>(f::unit). Inr) (AdagradOptimizer (1 / 10) None) ()
      [(array_of [2] (\<lambda>i. 7), Some (\<lambda>p. Inr (array_of [2] (\<lambda>i. 1)))),
       (array_of [2] (\<lambda>i. 8), Some (\<lambda>p. Inr (array_of [2] (\<lambda>i. 2))))]
     = AdagradOptimizer (1 / 10) (Some (array_of [2] (\<lambda>i. \<Sum>g\<leftarrow>[\<lambda>i. 1, \<lambda>i. 2]. g i * g i)))
   \<and> apply_grad (AdagradOptimizer (1 / 10) (Some (array_of [2] (\<lambda>i. 5))))
        (array_of [2] (\<lambda>i. 2)) (array_of [2] (\<lambda>i. 7)) =
      (AdagradOptimizer (1 / 10) (Some (array_of [2] (\<lambda>i. 5 + 2 * 2))),
       Inr (array_of [2] (\<lambda>i. 7 - 1 / 10 / sqrt (5 + 2 * 2 + 1 / 10 ^ 8) * 2)))"
proof -
  have h: "list_all2 (\<lambda>(x, grad_fn) g. shape x = [2] \<and>
             call_grad (\<lambda>(f::unit). Inr) () grad_fn x = Inr (array_of [2] g))
      [(array_of [2] (\<lambda>i. 7), Some (\<lambda>p. Inr (array_of [2] (\<lambda>i. 1)))),
       (array_of [2] (\<lambda>i. 8), Some (\<lambda>p. Inr (array_of [2] (\<lambda>i. 2))))]
      [\<lambda>i. 1, \<lambda>i. 2]"
    "[\<lambda>i::nat. 1::real, \<lambda>i. 2] \<noteq> []"
    "\<forall>i<prod_list [2]. (0::real) \<le> (\<lambda>i. 5) i"
    by (simp_all add: call_grad_def)
  from adagrad_update [OF h, where stepsize = "1 / 10" and g = "\<lambda>i. 2" and x = "\<lambda>i. 7"]
  show ?thesis by blast
qed

subsection \<open>C7: RMSProp\<close>

text \<open>
  Claim C7: the first \<^verbatim>\<open>step\<close> call of the RMSProp variant with gradient \<open>g\<close> sets
  \<open>accumulation = (1 - decay) * (g * g)\<close>, every later \<^verbatim>\<open>step\<close> call sets
  \<open>accumulation = decay * accumulation + (1 - decay) * (g * g)\<close>, and the call after the
  first is such a later call, on the accumulation the first call set. Each call returns
  Adagrad's formula on the updated accumulation, element by element:
  \<open>x - (stepsize / sqrt (accumulation + 1e-8)) * g\<close>, as a step of Adagrad does on its
  own updated accumulation; both variants return \<open>scaled_descent\<close> of their updated
  accumulation. The gradient is what the gradient computation returns at \<open>x\<close>, in the
  shape of \<open>x\<close> or flattened. In the elementwise equations \<open>decay\<close> is in \<open>[0, 1]\<close> and
  the accumulation is not negative, so that the square root is taken of a positive
  number.
\<close>

theorem rmsprop_update:
  assumes "\<forall>i<prod_list s. 0 \<le> a i" "0 \<le> decay" "decay \<le> 1"
    and "call_grad autograd_grad objective_fn grad_fn (array_of s x) = Inr (array_of gs g)"
    and "gs = s \<or> (length s > 1 \<and> prod_list gs = prod_list s)"
    and "call_grad autograd_grad objective_fn grad_fn2 (array_of s x2) = Inr (array_of gs2 g2)"
    and "gs2 = s \<or> (length s > 1 \<and> prod_list gs2 = prod_list s)"
  shows "step autograd_grad (RMSPropOptimizer stepsize decay None) objective_fn
           (array_of s x) grad_fn =
     (RMSPropOptimizer stepsize decay (Some (array_of s (\<lambda>i. (1 - decay) * (g i * g i)))),
      Inr (array_of s (\<lambda>i. x i - stepsize / sqrt ((1 - decay) * (g i * g i) + 1 / 10 ^ 8) * g i)))
   \<and> step autograd_grad (RMSPropOptimizer stepsize decay (Some (array_of s a))) objective_fn
           (array_of s x) grad_fn =
     (RMSPropOptimizer stepsize decay
        (Some (array_of s (\<lambda>i. decay * a i + (1 - decay) * (g i * g i)))),
      Inr (array_of s (\<lambda>i. x i -
         stepsize / sqrt (decay * a i + (1 - decay) * (g i * g i) + 1 / 10 ^ 8) * g i)))
   \<and> step autograd_grad
        (fst (step autograd_grad (RMSPropOptimizer stepsize decay None) objective_fn
                (array_of s x) grad_fn))
        objective_fn (array_of s x2) grad_fn2 =
     (RMSPropOptimizer stepsize decay
        (Some (array_of s
           (\<lambda>i. decay * ((1 - decay) * (g i * g i)) + (1 - decay) * (g2 i * g2 i)))),
      Inr (array_of s (\<lambda>i. x2 i -
         stepsize / sqrt (decay * ((1 - decay) * (g i * g i)) + (1 - decay) * (g2 i * g2 i)
                          + 1 / 10 ^ 8) * g2 i)))
   \<and> step autograd_grad (AdagradOptimizer stepsize (Some (array_of s a))) objective_fn
           (array_of s x) grad_fn =
     (AdagradOptimizer stepsize (Some (array_of s (\<lambda>i. a i + g i * g i))),
      Inr (array_of s (\<lambda>i. x i - stepsize / sqrt (a i + g i * g i + 1 / 10 ^ 8) * g i)))
   \<and> apply_grad (RMSPropOptimizer stepsize decay None) (array_of s g) (array_of s x) =
     (RMSPropOptimizer stepsize decay (Some (array_of s (\<lambda>i. (1 - decay) * (g i * g i)))),
      Inr (array_of s (\<lambda>i. x i - stepsize / sqrt ((1 - decay) * (g i * g i) + 1 / 10 ^ 8) * g i)))
   \<and> apply_grad (RMSPropOptimizer stepsize decay (Some (array_of s a)))
        (array_of s g) (array_of s x) =
     (RMSPropOptimizer stepsize decay
        (Some (array_of s (\<lambda>i. decay * a i + (1 - decay) * (g i * g i)))),
      Inr (array_of s (\<lambda>i. x i -
         stepsize / sqrt (decay * a i + (1 - decay) * (g i * g i) + 1 / 10 ^ 8) * g i)))
   \<and> snd (apply_grad (RMSPropOptimizer stepsize decay acc) grad xa) =
       (case rmsprop_accumulation decay acc grad of
          Inl e \<Rightarrow> Inl e
        | Inr a' \<Rightarrow> scaled_descent stepsize a' grad xa)
   \<and> snd (apply_grad (AdagradOptimizer stepsize acc) grad xa) =
       (case adagrad_accumulation acc grad of
          Inl e \<Rightarrow> Inl e
        | Inr a' \<Rightarrow> scaled_descent stepsize a' grad xa)"
proof -
  have cg: "compute_grad autograd_grad (RMSPropOptimizer stepsize decay acc) objective_fn
      (array_of s x) grad_fn = Inr (array_of gs g)" for acc
    using assms(4) by simp
  have cg2: "compute_grad autograd_grad (RMSPropOptimizer stepsize decay acc) objective_fn
      (array_of s x2) grad_fn2 = Inr (array_of gs2 g2)" for acc
    using assms(6) by simp
  have cga: "compute_grad autograd_grad (AdagradOptimizer stepsize acc) objective_fn
      (array_of s x) grad_fn = Inr (array_of gs g)" for acc
    using assms(4) by simp
  note ap_first = rmsprop_apply_first[OF assms(3)]
  note ap_later = rmsprop_apply_later[OF assms(1-3)]
  have first: "step autograd_grad (RMSPropOptimizer stepsize decay None) objective_fn
           (array_of s x) grad_fn =
     (RMSPropOptimizer stepsize decay (Some (array_of s (\<lambda>i. (1 - decay) * (g i * g i)))),
      Inr (array_of s (\<lambda>i. x i - stepsize / sqrt ((1 - decay) * (g i * g i) + 1 / 10 ^ 8) * g i)))"
    unfolding step_array_of[OF cg assms(5)] by (rule ap_first)
  have later: "step autograd_grad (RMSPropOptimizer stepsize decay (Some (array_of s a)))
      objective_fn (array_of s x) grad_fn =
     (RMSPropOptimizer stepsize decay
        (Some (array_of s (\<lambda>i. decay * a i + (1 - decay) * (g i * g i)))),
      Inr (array_of s (\<lambda>i. x i -
         stepsize / sqrt (decay * a i + (1 - decay) * (g i * g i) + 1 / 10 ^ 8) * g i)))"
    unfolding step_array_of[OF cg assms(5)] by (rule ap_later)
  have nonneg: "\<forall>i<prod_list s. 0 \<le> (1 - decay) * (g i * g i)"
    using assms(3) by simp
  have second: "step autograd_grad
        (fst (step autograd_grad (RMSPropOptimizer stepsize decay None) objective_fn
                (array_of s x) grad_fn))
        objective_fn (array_of s x2) grad_fn2 =
     (RMSPropOptimizer stepsize decay
        (Some (array_of s
           (\<lambda>i. decay * ((1 - decay) * (g i * g i)) + (1 - decay) * (g2 i * g2 i)))),
      Inr (array_of s (\<lambda>i. x2 i -
         stepsize / sqrt (decay * ((1 - decay) * (g i * g i)) + (1 - decay) * (g2 i * g2 i)
                          + 1 / 10 ^ 8) * g2 i)))"
    unfolding first fst_conv step_array_of[OF cg2 assms(7)]
    by (rule rmsprop_apply_later[OF nonneg assms(2,3)])
  have ada: "step autograd_grad (AdagradOptimizer stepsize (Some (array_of s a))) objective_fn
           (array_of s x) grad_fn =
     (AdagradOptimizer stepsize (Some (array_of s (\<lambda>i. a i + g i * g i))),
      Inr (array_of s (\<lambda>i. x i - stepsize / sqrt (a i + g i * g i + 1 / 10 ^ 8) * g i)))"
    unfolding step_array_of[OF cga assms(5)]
    using scaled_descent_array_of[of s "\<lambda>i. a i + g i * g i" stepsize g x] assms(1)
    by (simp add: adagrad_accumulation_def)
  have same1: "snd (apply_grad (RMSPropOptimizer stepsize decay acc) grad xa) =
       (case rmsprop_accumulation decay acc grad of
          Inl e \<Rightarrow> Inl e
        | Inr a' \<Rightarrow> scaled_descent stepsize a' grad xa)"
    and same2: "snd (apply_grad (AdagradOptimizer stepsize acc) grad xa) =
       (case adagrad_accumulation acc grad of
          Inl e \<Rightarrow> Inl e
        | Inr a' \<Rightarrow> scaled_descent stepsize a' grad xa)"
    by (simp_all split: sum.splits)
  from first later second ada ap_first ap_later same1 same2 show ?thesis
    by (intro conjI)
qed

text \<open>A step on an accumulation of 1 with gradient 2 at the point 5.\<close>

theorem rmsprop_update_witness:
  "step (\<lambda>(f::unit). Inr) (RMSPropOptimizer (1 / 100) (9 / 10) (Some (array_of [2] (\<lambda>i. 1))))
        () (array_of [2] (\<lambda>i. 5)) (Some (\<lambda>p. Inr (array_of [2] (\<lambda>i. 2)))) =
     (RMSPropOptimizer (1 / 100) (9 / 10)
        (Some (array_of [2] (\<lambda>i. 9 / 10 * 1 + (1 - 9 / 10) * (2 * 2)))),
      Inr (array_of [2] (\<lambda>i. 5 -
         1 / 100 / sqrt (9 / 10 * 1 + (1 - 9 / 10) * (2 * 2) + 1 / 10 ^ 8) * 2)))"
proof -
  have h: "\<forall>i<prod_list [2]. (0::real) \<le> (\<lambda>i. 1) i" "(0::real) \<le> 9 / 10" "(9::real) / 10 \<le> 1"
    "call_grad (\<lambda>(f::unit). Inr) () (Some (\<lambda>p. Inr (array_of [2] (\<lambda>i. 2))))
        (array_of [2] (\<lambda>i. 5)) = Inr (array_of [2] (\<lambda>i. 2))"
    "[2] = [2] \<or> (length [2::nat] > 1 \<and> prod_list [2] = prod_list [2::nat])"
    "call_grad (\<lambda>(f::unit). Inr) () (Some (\<lambda>p. Inr (array_of [2] (\<lambda>i. 2))))
        (array_of [2] (\<lambda>i. 5)) = Inr (array_of [2] (\<lambda>i. 2))"
    "[2] = [2] \<or> (length [2::nat] > 1 \<and> prod_list [2] = prod_list [2::nat])"
    by (simp_all add: call_grad_def)
  show ?thesis
    by (rule rmsprop_update [where stepsize = "1 / 100", OF h, THEN conjunct2,
          THEN conjunct1])
qed

subsection \<open>C8: reshaping the gradient\<close>

text \<open>
  Claim C8: in every variant's \<^verbatim>\<open>step\<close> the computed gradient is reshaped to the shape
  of \<open>x\<close> if and only if \<open>x\<close> has more than one dimension, and is used in the shape the
  gradient computation gave it when \<open>x\<close> has one dimension or none. Reshaping keeps the
  elements and takes the shape of \<open>x\<close>. The base variant returns exactly
  \<open>x - stepsize * g\<close> and has no state to change.
\<close>

theorem reshape_condition:
  assumes "compute_grad autograd_grad opt objective_fn x grad_fn = Inr g"
  shows "step autograd_grad opt objective_fn x grad_fn =
           (if length (shape x) > 1 then
              (case reshape g (shape x) of
                 Inl e \<Rightarrow> (opt, Inl e)
               | Inr g' \<Rightarrow> apply_grad opt g' x)
            else apply_grad opt g x)
       \<and> (length (data g) = prod_list (shape x) \<longrightarrow>
            reshape g (shape x) = Inr \<lparr>shape = shape x, data = data g\<rparr>)
       \<and> apply_grad (GradientDescentOptimizer stepsize) (array_of s gf) (array_of s xf) =
            (GradientDescentOptimizer stepsize, Inr (array_of s (\<lambda>i. xf i - stepsize * gf i)))
       \<and> apply_grad (GradientDescentOptimizer stepsize) grad xa =
            (GradientDescentOptimizer stepsize, np_sub xa (scalar_mul (Finite stepsize) grad))"
  using assms by (simp add: step_def reshape_def)

text \<open>A \<open>2 \<times> 2\<close> point and an engine that returns the gradient flattened to 4
  elements: the step is taken on the reshaped gradient.\<close>

theorem reshape_condition_witness:
  "step (\<lambda>(f::unit) p. Inr (array_of [4] (\<lambda>i. 2))) (GradientDescentOptimizer (1 / 10)) ()
        (array_of [2, 2] (\<lambda>i. 1)) None
     = (GradientDescentOptimizer (1 / 10), Inr (array_of [2, 2] (\<lambda>i. 1 - 1 / 10 * 2)))"
proof -
  have h: "compute_grad (\<lambda>(f::unit) p. Inr (array_of [4] (\<lambda>i. 2)))
      (GradientDescentOptimizer (1 / 10)) () (array_of [2, 2] (\<lambda>i. 1)) None
      = Inr (array_of [4] (\<lambda>i. 2))"
    by (simp add: call_grad_def)
  have r: "reshape (array_of [4] (\<lambda>i. 2)) [2, 2] = Inr (array_of [2, 2] (\<lambda>i. 2))"
    by (rule reshape_array_of) simp
  from reshape_condition [OF h] r show ?thesis
    by simp
qed

text \<open>A point of one dimension and a gradient of shape \<open>2 \<times> 1\<close>: the gradient is not
  reshaped, and the subtraction broadcasts to a \<open>2 \<times> 2\<close> result.\<close>

lemma native_shape_example:
  "step autograd_constant (GradientDescentOptimizer (1 / 10)) ()
      \<lparr>shape = [2], data = [Finite 1, Finite 2]\<rparr>
      (Some (\<lambda>p. Inr \<lparr>shape = [2, 1], data = [Finite 10, Finite 20]\<rparr>))
   = (GradientDescentOptimizer (1 / 10),
      Inr \<lparr>shape = [2, 2], data = [Finite 0, Finite 1, Finite (- 1), Finite 0]\<rparr>)"
proof -
  have upt_4: "[0..<4] = [0, 1, 2, 3]"
    by (simp add: upt_rec)
  show ?thesis
    by (simp add: step_def call_grad_def np_sub_def np_binop_def broadcast_shapes_def
        scalar_mul_def src_index_def upt_4 Let_def)
qed

subsection \<open>C9: a failing gradient computation\<close>

text \<open>
  Claim C9: in every variant, if the gradient computation raises (the supplied
  \<^verbatim>\<open>grad_fn\<close>, the differentiation engine, or for Nesterov the shift of the point),
  the \<^verbatim>\<open>step\<close> call ends with that exception and the optimizer, with its
  \<^verbatim>\<open>accumulation\<close>, \<^verbatim>\<open>firstmoment\<close>, \<^verbatim>\<open>secondmoment\<close> and \<^verbatim>\<open>t\<close>, is as it was
  before the call: the gradient is computed before any state is updated.
\<close>

theorem gradient_failure_keeps_state:
  assumes "compute_grad autograd_grad opt objective_fn x grad_fn = Inl e"
  shows "step autograd_grad opt objective_fn x grad_fn = (opt, Inl e)
     \<and> accumulated_state (fst (step autograd_grad opt objective_fn x grad_fn)) =
         accumulated_state opt"
  using assms by (simp add: step_def)

theorem gradient_failure_keeps_state_witness:
  "step (\<lambda>(f::unit) p. Inr p)
        (AdamOptimizer (1 / 100) (9 / 10) (99 / 100)
           (Some (array_of [2] (\<lambda>i. 1))) (Some (array_of [2] (\<lambda>i. 1))) 3)
        () (array_of [2] (\<lambda>i. 5)) (Some (\<lambda>p. Inl (GradientFailure ''not differentiable'')))
   = (AdamOptimizer (1 / 100) (9 / 10) (99 / 100)
           (Some (array_of [2] (\<lambda>i. 1))) (Some (array_of [2] (\<lambda>i. 1))) 3,
      Inl (GradientFailure ''not differentiable''))"
proof -
  have h: "compute_grad (\<lambda>(f::unit) p. Inr p)
        (AdamOptimizer (1 / 100) (9 / 10) (99 / 100)
           (Some (array_of [2] (\<lambda>i. 1))) (Some (array_of [2] (\<lambda>i. 1))) 3)
        () (array_of [2] (\<lambda>i. 5)) (Some (\<lambda>p. Inl (GradientFailure ''not differentiable'')))
      = Inl (GradientFailure ''not differentiable'')"
    by (simp add: call_grad_def)
  from gradient_failure_keeps_state [OF h] show ?thesis
    by (rule conjunct1)
qed

subsection \<open>C10: the caller's array\<close>

text \<open>
  Claim C10: in every variant, \<^verbatim>\<open>step\<close> does not write into the caller's array \<open>x\<close>.
  On the store of array objects, a step only adds objects, and the one object existing
  before the call that it can write into is the accumulation of an Adagrad optimizer:
  only the optimizer's own accumulated state is mutated. So an \<open>x\<close> that the caller
  owns, which is not an object the optimizer's attributes refer to, holds after the
  call what it held before; and the returned array is an object that did not exist
  before the call.
\<close>

theorem step_store_frame:
  assumes "step_store autograd_grad st opt objective_fn x grad_fn = (st', opt', r)"
  shows "length st \<le> length st'
       \<and> (\<forall>a<length st. (\<forall>stepsize. opt \<noteq> AdagradOptimizer stepsize (Some a)) \<longrightarrow>
             st' ! a = st ! a)
       \<and> (\<forall>a<length st. a \<notin> set_optimizer opt \<longrightarrow> st' ! a = st ! a)
       \<and> (x < length st \<and> x \<notin> set_optimizer opt \<longrightarrow> st' ! x = st ! x)
       \<and> (\<forall>a. r = Inr a \<longrightarrow> length st \<le> a \<and> a < length st')"
proof -
  obtain st1 rg where
    cg: "compute_grad_store autograd_grad st opt objective_fn x grad_fn = (st1, rg)"
    by (cases "compute_grad_store autograd_grad st opt objective_fn x grad_fn")
  then have st1: "length st \<le> length st1" "\<forall>a<length st. st1 ! a = st ! a"
    by (auto simp: compute_grad_store_def nth_append split: sum.splits)
  have main: "length st \<le> length st'
       \<and> (\<forall>a<length st. (\<forall>stepsize. opt \<noteq> AdagradOptimizer stepsize (Some a)) \<longrightarrow>
             st' ! a = st ! a)
       \<and> (\<forall>a. r = Inr a \<longrightarrow> length st \<le> a \<and> a < length st')"
  proof (cases rg)
    case (Inl e)
    with assms cg st1 show ?thesis
      by (auto simp: step_store_def)
  next
    case (Inr g)
    show ?thesis
    proof (cases "length (shape (st ! x)) > 1")
      case False
      with assms cg Inr have "apply_grad_store st1 opt g x = (st', opt', r)"
        by (simp add: step_store_def)
      from apply_grad_store_writes[OF this] st1 show ?thesis
        by (metis le_trans less_le_trans)
    next
      case True
      show ?thesis
      proof (cases "reshape (st1 ! g) (shape (st ! x))")
        case (Inl e)
        with assms cg Inr True st1 show ?thesis
          by (auto simp: step_store_def)
      next
        case (Inr v)
        with assms cg \<open>rg = Inr g\<close> True
        have "apply_grad_store (st1 @ [v]) opt (length st1) x = (st', opt', r)"
          by (simp add: step_store_def)
        from apply_grad_store_writes[OF this] st1 show ?thesis
          by (auto simp: nth_append)
      qed
    qed
  qed
  then show ?thesis
    using not_adagrad_accumulation[of _ opt] by blast
qed

text \<open>An Adagrad optimizer whose accumulation is the object at address 1, stepped at
  the point at address 0: the object at address 0 is as it was.\<close>

theorem step_store_frame_witness:
  "fst (step_store (\<lambda>(f::unit) p. Inr (scalar_mul (Finite 2) p))
          [array_of [2] (\<lambda>i. 1), array_of [2] (\<lambda>i. 4)]
          (AdagradOptimizer (1 / 10) (Some 1)) () 0 None) ! 0
     = array_of [2] (\<lambda>i. 1)"
proof -
  let ?res = "step_store (\<lambda>(f::unit) p. Inr (scalar_mul (Finite 2) p))
          [array_of [2] (\<lambda>i. 1), array_of [2] (\<lambda>i. 4)]
          (AdagradOptimizer (1 / 10) (Some 1)) () 0 None"
  have h: "?res = (fst ?res, fst (snd ?res), snd (snd ?res))"
    by simp
  from step_store_frame [OF h] show ?thesis
    by simp
qed

text \<open>The same step, computed: the accumulation at address 1 is written in place, and
  the gradient and the new point are the new objects at addresses 2 and 3.\<close>

lemma step_store_example:
  "step_store (\<lambda>(f::unit) p. Inr (scalar_mul (Finite 2) p))
      [array_of [2] (\<lambda>i. 1), array_of [2] (\<lambda>i. 4)]
      (AdagradOptimizer (1 / 10) (Some 1)) () 0 None
   = ([array_of [2] (\<lambda>i. 1), array_of [2] (\<lambda>i. 4 + 2 * 2), array_of [2] (\<lambda>i. 2),
       array_of [2] (\<lambda>i. 1 - 1 / 10 / sqrt (4 + 2 * 2 + 1 / 10 ^ 8) * 2)],
      AdagradOptimizer (1 / 10) (Some 1), Inr 3)"
  using scaled_descent_array_of[of "[2]" "\<lambda>i. 8" "1 / 10" "\<lambda>i. 2" "\<lambda>i. 1"]
  by (simp add: step_store_def compute_grad_store_def call_grad_def return_new_def Let_def
      numeral_3_eq_3)

text \<open>The point has to be the caller's own: when the caller passes the accumulation
  object of an Adagrad optimizer as the point, the write into the accumulation is a
  write into the point.\<close>

lemma aliased_point_example:
  "fst (step_store (\<lambda>(f::unit) p. Inr (scalar_mul (Finite 2) p))
          [array_of [2] (\<lambda>i. 1), array_of [2] (\<lambda>i. 4)]
          (AdagradOptimizer (1 / 10) (Some 1)) () 1 None) ! 1
     = array_of [2] (\<lambda>i. 4 + 2 * 4 * (2 * 4))"
  by (simp add: step_store_def compute_grad_store_def call_grad_def return_new_def Let_def
      split: sum.splits)

end
